theory Spec2Isabelle
  imports Complex_Main
begin

section \<open>Cost Tracker (packages/ai-services/src/cost-tracker.ts)\<close>

text \<open>
  A \<open>UsageRecord\<close> as the interface declares it. JavaScript numbers that count tokens,
  cents and milliseconds are integers here; a \<open>Date\<close> is its number of milliseconds since
  the epoch; the optional fields \<open>error\<close> and \<open>timestamp\<close> are options.
\<close>

record UsageRecord =
  provider :: string
  model :: string
  analysisType :: string
  tokensUsed :: int
  costCents :: int
  processingTime :: int
  success :: bool
  error :: "string option"
  timestamp :: "int option"

definition maxHistorySize :: nat where
  "maxHistorySize = 10000"

text \<open>\<open>Array.prototype.slice(-n)\<close> for a positive \<open>n\<close>: the last \<open>n\<close> elements, or the
  whole array when it is shorter.\<close>

definition slice_last :: "nat \<Rightarrow> 'a list \<Rightarrow> 'a list" where
  "slice_last n xs = drop (length xs - n) xs"

text \<open>
  \<open>recordUsage(record)\<close>: the state is the \<open>usageHistory\<close> array, passed in and returned;
  \<open>now\<close> is the value of \<open>new Date()\<close> read by the call.
\<close>

definition recordUsage :: "int \<Rightarrow> UsageRecord \<Rightarrow> UsageRecord list \<Rightarrow> UsageRecord list" where
  "recordUsage now record usageHistory =
     (let fullRecord = record\<lparr>timestamp := Some now\<rparr>;
          pushed = usageHistory @ [fullRecord]
      in if length pushed > maxHistorySize then slice_last maxHistorySize pushed else pushed)"

text \<open>A sequence of \<open>recordUsage\<close> calls, each with the clock reading it sees.\<close>

fun recordUsage_all :: "(int \<times> UsageRecord) list \<Rightarrow> UsageRecord list \<Rightarrow> UsageRecord list" where
  "recordUsage_all [] usageHistory = usageHistory"
| "recordUsage_all ((now, record) # calls) usageHistory =
     recordUsage_all calls (recordUsage now record usageHistory)"

definition stamped :: "int \<times> UsageRecord \<Rightarrow> UsageRecord" where
  "stamped c = (snd c)\<lparr>timestamp := Some (fst c)\<rparr>"

text \<open>
  \<open>getUsageStats\<close>: the cutoff date is computed from the clock by the \<open>Date\<close> calendar
  methods (\<open>setHours\<close>, \<open>setDate\<close>, \<open>setMonth\<close>), which are outside this code, so the model
  takes \<open>cutoffDate\<close> as computed. The filter keeps a record when its timestamp is present
  (a \<open>Date\<close> object is truthy) and is not before the cutoff. The two breakdowns of the
  cost, by provider and by analysis type, are left out of the result.
\<close>

definition relevantRecords :: "int \<Rightarrow> UsageRecord list \<Rightarrow> UsageRecord list" where
  "relevantRecords cutoffDate usageHistory =
     filter (\<lambda>record. case timestamp record of None \<Rightarrow> False | Some t \<Rightarrow> t \<ge> cutoffDate)
       usageHistory"

record UsageStats =
  totalRequests :: nat
  successfulRequests :: nat
  failedRequests :: nat
  totalCostCents :: int
  totalTokensUsed :: int
  averageProcessingTime :: int

definition getEmptyStats :: UsageStats where
  "getEmptyStats = \<lparr>totalRequests = 0, successfulRequests = 0, failedRequests = 0,
     totalCostCents = 0, totalTokensUsed = 0, averageProcessingTime = 0\<rparr>"

definition getUsageStats :: "int \<Rightarrow> UsageRecord list \<Rightarrow> UsageStats" where
  "getUsageStats cutoffDate usageHistory =
     (let rs = relevantRecords cutoffDate usageHistory in
      if length rs = 0 then getEmptyStats
      else
        let total = length rs;
            successful = length (filter success rs)
        in \<lparr>totalRequests = total,
            successfulRequests = successful,
            failedRequests = total - successful,
            totalCostCents = foldl (\<lambda>sum r. sum + costCents r) 0 rs,
            totalTokensUsed = foldl (\<lambda>sum r. sum + tokensUsed r) 0 rs,
            averageProcessingTime =
              round (real_of_int (foldl (\<lambda>sum r. sum + processingTime r) 0 rs) / real total)\<rparr>)"

text \<open>A usage record for the examples.\<close>

definition r0 :: UsageRecord where
  "r0 = \<lparr>provider = ''openai'', model = ''gpt-4-turbo'', analysisType = ''QUICK_SCAN'',
     tokensUsed = 1200, costCents = 3, processingTime = 850, success = True,
     error = None, timestamp = None\<rparr>"

section \<open>Rate limiter (apps/api/src/middleware/rate-limiter.ts)\<close>










section \<open>JavaScript values\<close>

text \<open>
  A JavaScript number is a real number, an infinity or \<open>NaN\<close> (the rounding of doubles is
  not modelled). \<open>Math.round\<close> rounds half up; \<open>Math.min\<close> and \<open>Math.max\<close> return
  \<open>NaN\<close> when an argument is \<open>NaN\<close>.
\<close>

datatype jsnum = NaN | NegInf | Fin real | PosInf

fun isNaN :: "jsnum \<Rightarrow> bool" where
  "isNaN NaN = True"
| "isNaN _ = False"

fun Math_round :: "jsnum \<Rightarrow> jsnum" where
  "Math_round (Fin x) = Fin (of_int \<lfloor>x + 1 / 2\<rfloor>)"
| "Math_round n = n"

fun num_le :: "jsnum \<Rightarrow> jsnum \<Rightarrow> bool" where
  "num_le NaN _ = False"
| "num_le _ NaN = False"
| "num_le NegInf _ = True"
| "num_le _ PosInf = True"
| "num_le (Fin x) (Fin y) = (x \<le> y)"
| "num_le _ _ = False"

definition Math_min :: "jsnum \<Rightarrow> jsnum \<Rightarrow> jsnum" where
  "Math_min a b = (if isNaN a \<or> isNaN b then NaN else if num_le a b then a else b)"

definition Math_max :: "jsnum \<Rightarrow> jsnum \<Rightarrow> jsnum" where
  "Math_max a b = (if isNaN a \<or> isNaN b then NaN else if num_le a b then b else a)"

text \<open>The values \<open>JSON.parse\<close> can return, and \<open>undefined\<close> for a missing property.\<close>

datatype jsv =
    JUndefined
  | JNull
  | JBool bool
  | JNum jsnum
  | JStr string
  | JArr "jsv list"
  | JObj "(string \<times> jsv) list"

fun truthy :: "jsv \<Rightarrow> bool" where
  "truthy JUndefined = False"
| "truthy JNull = False"
| "truthy (JBool b) = b"
| "truthy (JNum NaN) = False"
| "truthy (JNum (Fin x)) = (x \<noteq> 0)"
| "truthy (JNum _) = True"
| "truthy (JStr s) = (s \<noteq> [])"
| "truthy (JArr _) = True"
| "truthy (JObj _) = True"

text \<open>
  Reading a property \<open>v.name\<close>, for the property names the parsers read (none of them is
  inherited from a prototype): a \<open>TypeError\<close> on \<open>null\<close> and \<open>undefined\<close>, the own
  property of an object, \<open>undefined\<close> on every other value.
\<close>

fun get_prop :: "jsv \<Rightarrow> string \<Rightarrow> string + jsv" where
  "get_prop JNull name = Inl (''Cannot read properties of null (reading '' @ name @ '')'')"
| "get_prop JUndefined name = Inl (''Cannot read properties of undefined (reading '' @ name @ '')'')"
| "get_prop (JObj props) name = Inr (case map_of props name of Some v \<Rightarrow> v | None \<Rightarrow> JUndefined)"
| "get_prop _ name = Inr JUndefined"

text \<open>\<open>v.name\<close> where \<open>v\<close> is known to be truthy, so that the read cannot throw.\<close>

definition read_prop :: "jsv \<Rightarrow> string \<Rightarrow> jsv" where
  "read_prop v name = (case get_prop v name of Inr x \<Rightarrow> x | Inl _ \<Rightarrow> JUndefined)"

text \<open>\<open>a || b\<close>.\<close>

definition or_else :: "jsv \<Rightarrow> jsv \<Rightarrow> jsv" where
  "or_else a b = (if truthy a then a else b)"

text \<open>\<open>Array.isArray(v) ? v : []\<close>, as the list of elements.\<close>

fun array_or_empty :: "jsv \<Rightarrow> jsv list" where
  "array_or_empty (JArr xs) = xs"
| "array_or_empty _ = []"

section \<open>Provider clients (packages/ai-services/src/openai.ts, claude.ts)\<close>

datatype AIProvider = openai | claude | google

text \<open>\<open>AIModelConfig\<close>; its \<open>provider\<close> and \<open>model\<close> fields carry the prefix \<open>config_\<close>.\<close>

record AIModelConfig =
  config_provider :: AIProvider
  config_model :: string
  maxTokens :: int
  temperature :: real
  costPerInputToken :: real
  costPerOutputToken :: real

definition OpenAI_MODEL_CONFIGS :: "string \<rightharpoonup> AIModelConfig" where
  "OpenAI_MODEL_CONFIGS = [
     ''gpt-4'' \<mapsto> \<lparr>config_provider = openai, config_model = ''gpt-4'', maxTokens = 8192,
        temperature = 7 / 10, costPerInputToken = 3 / 1000, costPerOutputToken = 6 / 1000\<rparr>,
     ''gpt-4-turbo'' \<mapsto> \<lparr>config_provider = openai, config_model = ''gpt-4-turbo-preview'',
        maxTokens = 4096, temperature = 7 / 10, costPerInputToken = 1 / 1000,
        costPerOutputToken = 3 / 1000\<rparr>,
     ''gpt-3.5-turbo'' \<mapsto> \<lparr>config_provider = openai, config_model = ''gpt-3.5-turbo'',
        maxTokens = 4096, temperature = 7 / 10, costPerInputToken = 5 / 10000,
        costPerOutputToken = 15 / 10000\<rparr>]"

definition Claude_MODEL_CONFIGS :: "string \<rightharpoonup> AIModelConfig" where
  "Claude_MODEL_CONFIGS = [
     ''claude-3-opus'' \<mapsto> \<lparr>config_provider = claude, config_model = ''claude-3-opus-20240229'',
        maxTokens = 4096, temperature = 7 / 10, costPerInputToken = 15 / 1000,
        costPerOutputToken = 75 / 1000\<rparr>,
     ''claude-3-sonnet'' \<mapsto> \<lparr>config_provider = claude, config_model = ''claude-3-sonnet-20240229'',
        maxTokens = 4096, temperature = 7 / 10, costPerInputToken = 3 / 1000,
        costPerOutputToken = 15 / 1000\<rparr>,
     ''claude-3-haiku'' \<mapsto> \<lparr>config_provider = claude, config_model = ''claude-3-haiku-20240307'',
        maxTokens = 4096, temperature = 7 / 10, costPerInputToken = 25 / 100000,
        costPerOutputToken = 125 / 100000\<rparr>]"

text \<open>
  \<open>validateScore\<close> is the same in both clients. \<open>Number\<close> is the language's conversion of
  any value to a number; the model takes it as an argument.
\<close>

definition validateScore :: "(jsv \<Rightarrow> jsnum) \<Rightarrow> jsv \<Rightarrow> jsnum" where
  "validateScore Number score =
     (let num = Number score in
      if isNaN num then Fin 0
      else Math_max (Fin 0) (Math_min (Fin 100) (Math_round num)))"

definition OpenAI_calculateCost :: "int \<Rightarrow> int \<Rightarrow> AIModelConfig \<Rightarrow> real" where
  "OpenAI_calculateCost inputTokens outputTokens config =
     (let inputCost = (real_of_int inputTokens / 1000) * costPerInputToken config;
          outputCost = (real_of_int outputTokens / 1000) * costPerOutputToken config
      in inputCost + outputCost)"

definition Claude_calculateCost :: "int \<Rightarrow> int \<Rightarrow> AIModelConfig \<Rightarrow> real" where
  "Claude_calculateCost inputTokens outputTokens config =
     (let inputCost = (real_of_int inputTokens / 1000000) * costPerInputToken config * 1000;
          outputCost = (real_of_int outputTokens / 1000000) * costPerOutputToken config * 1000
      in inputCost + outputCost)"

text \<open>\<open>costCents: Math.round(totalCost * 100)\<close>, in both clients.\<close>

definition costCents_of :: "real \<Rightarrow> int" where
  "costCents_of totalCost = \<lfloor>totalCost * 100 + 1 / 2\<rfloor>"

text \<open>
  \<open>AIAnalysisResponse\<close>, with the nested objects flattened: \<open>strengths.summary\<close> is
  \<open>strengths_summary\<close>. The parsers do not check the type of a summary or of a list
  element, so these stay JavaScript values.
\<close>

record AIAnalysisResponse =
  strengths_summary :: jsv
  strengths_details :: "jsv list"
  strengths_score :: jsnum
  weaknesses_summary :: jsv
  weaknesses_details :: "jsv list"
  weaknesses_areas :: "jsv list"
  opportunities_summary :: jsv
  opportunities_recommendations :: "jsv list"
  competitors :: jsv
  contentStrategy :: jsv
  scores_overall :: jsnum
  scores_contentQuality :: jsnum
  scores_engagement :: jsnum
  scores_growthPotential :: jsnum
  metadata_aiModel :: string
  metadata_promptVersion :: string
  metadata_processingTime :: int
  metadata_confidence :: real
  metadata_costCents :: int

text \<open>
  The part of \<open>parseAnalysisResponse\<close> after the JSON text has been parsed, which is the
  same in both clients. \<open>Inl\<close> is the message of the error thrown inside the \<open>try\<close>.
\<close>

definition build_response :: "(jsv \<Rightarrow> jsnum) \<Rightarrow> jsv \<Rightarrow> string + AIAnalysisResponse" where
  "build_response Number parsed =
     (case get_prop parsed ''strengths'' of
        Inl e \<Rightarrow> Inl e
      | Inr strengths \<Rightarrow>
          let weaknesses = read_prop parsed ''weaknesses'';
              opportunities = read_prop parsed ''opportunities'';
              scores = read_prop parsed ''scores''
          in if \<not> truthy strengths \<or> \<not> truthy weaknesses \<or> \<not> truthy opportunities
                \<or> \<not> truthy scores
             then Inl ''Invalid response format: missing required fields''
             else Inr \<lparr>
               strengths_summary = or_else (read_prop strengths ''summary'') (JStr ''''),
               strengths_details = array_or_empty (read_prop strengths ''details''),
               strengths_score = validateScore Number (read_prop strengths ''score''),
               weaknesses_summary = or_else (read_prop weaknesses ''summary'') (JStr ''''),
               weaknesses_details = array_or_empty (read_prop weaknesses ''details''),
               weaknesses_areas = array_or_empty (read_prop weaknesses ''areas''),
               opportunities_summary = or_else (read_prop opportunities ''summary'') (JStr ''''),
               opportunities_recommendations =
                 array_or_empty (read_prop opportunities ''recommendations''),
               competitors = or_else (read_prop parsed ''competitors'') JUndefined,
               contentStrategy = or_else (read_prop parsed ''contentStrategy'') JUndefined,
               scores_overall = validateScore Number (read_prop scores ''overall''),
               scores_contentQuality = validateScore Number (read_prop scores ''contentQuality''),
               scores_engagement = validateScore Number (read_prop scores ''engagement''),
               scores_growthPotential = validateScore Number (read_prop scores ''growthPotential''),
               metadata_aiModel = '''',
               metadata_promptVersion = '''',
               metadata_processingTime = 0,
               metadata_confidence = 0,
               metadata_costCents = 0\<rparr>)"

text \<open>
  \<open>OpenAIService.parseAnalysisResponse\<close>. \<open>JSON_parse\<close> is the language's \<open>JSON.parse\<close>,
  an argument of the model: \<open>Inl\<close> is the message of its \<open>SyntaxError\<close>.
\<close>

definition OpenAI_parseAnalysisResponse ::
  "(string \<Rightarrow> string + jsv) \<Rightarrow> (jsv \<Rightarrow> jsnum) \<Rightarrow> string \<Rightarrow> string + AIAnalysisResponse" where
  "OpenAI_parseAnalysisResponse JSON_parse Number content =
     (case (case JSON_parse content of
              Inl e \<Rightarrow> Inl e
            | Inr parsed \<Rightarrow> build_response Number parsed) of
        Inl message \<Rightarrow> Inl (''Failed to parse AI response: '' @ message)
      | Inr r \<Rightarrow> Inr r)"

text \<open>
  \<open>content.match(/\{[\s\S]*\}/)\<close>: from the first \<open>{\<close> to the last \<open>}\<close> after it, when
  there is one.
\<close>

definition jsonMatch :: "string \<Rightarrow> string option" where
  "jsonMatch content =
     (case dropWhile (\<lambda>c. c \<noteq> CHR ''{'') content of
        [] \<Rightarrow> None
      | open_brace # rest \<Rightarrow>
          (case dropWhile (\<lambda>c. c \<noteq> CHR ''}'') (rev rest) of
             [] \<Rightarrow> None
           | upto_close \<Rightarrow> Some (open_brace # rev upto_close)))"

definition Claude_parseAnalysisResponse ::
  "(string \<Rightarrow> string + jsv) \<Rightarrow> (jsv \<Rightarrow> jsnum) \<Rightarrow> string \<Rightarrow> string + AIAnalysisResponse" where
  "Claude_parseAnalysisResponse JSON_parse Number content =
     (case (case jsonMatch content of
              None \<Rightarrow> Inl ''No JSON found in response''
            | Some json \<Rightarrow>
                (case JSON_parse json of
                   Inl e \<Rightarrow> Inl e
                 | Inr parsed \<Rightarrow> build_response Number parsed)) of
        Inl message \<Rightarrow> Inl (''Failed to parse Claude response: '' @ message)
      | Inr r \<Rightarrow> Inr r)"

fun positive :: "jsnum \<Rightarrow> bool" where
  "positive (Fin x) = (x > 0)"
| "positive PosInf = True"
| "positive _ = False"

definition OpenAI_calculateConfidence :: "AIAnalysisResponse \<Rightarrow> real" where
  "OpenAI_calculateConfidence result =
     (let confidence = 5 / 10;
          confidence = (if length (strengths_details result) \<ge> 3
                        then confidence + 1 / 10 else confidence);
          confidence = (if length (weaknesses_details result) \<ge> 2
                        then confidence + 1 / 10 else confidence);
          confidence = (if length (opportunities_recommendations result) \<ge> 1
                        then confidence + 1 / 10 else confidence);
          confidence = (if positive (scores_overall result)
                        then confidence + 1 / 10 else confidence);
          confidence = (if truthy (contentStrategy result)
                        then confidence + 1 / 10 else confidence)
      in min 1 confidence)"

definition Claude_calculateConfidence :: "AIAnalysisResponse \<Rightarrow> real" where
  "Claude_calculateConfidence result =
     (let confidence = 6 / 10;
          confidence = (if length (strengths_details result) \<ge> 3
                        then confidence + 1 / 10 else confidence);
          confidence = (if length (weaknesses_details result) \<ge> 2
                        then confidence + 1 / 10 else confidence);
          confidence = (if length (opportunities_recommendations result) \<ge> 1
                        then confidence + 1 / 10 else confidence);
          confidence = (if positive (scores_overall result)
                        then confidence + 5 / 100 else confidence);
          confidence = (if truthy (contentStrategy result)
                        then confidence + 5 / 100 else confidence)
      in min 1 confidence)"


text \<open>A parsed payload with out-of-range and non-numeric scores, and a \<open>Number\<close> that
  converts such values as the language does.\<close>

definition payload0 :: jsv where
  "payload0 = JObj [
     (''strengths'', JObj [(''summary'', JStr ''ok''), (''score'', JNum (Fin 150))]),
     (''weaknesses'', JObj [(''details'', JStr ''none'')]),
     (''opportunities'', JBool True),
     (''scores'', JObj [(''overall'', JStr ''abc''), (''contentQuality'', JNum (Fin (- 5))),
        (''engagement'', JNum (Fin (849 / 20))), (''growthPotential'', JNum PosInf)])]"

definition Number0 :: "jsv \<Rightarrow> jsnum" where
  "Number0 v = (case v of JNum n \<Rightarrow> n | JNull \<Rightarrow> Fin 0 | JBool b \<Rightarrow> Fin (if b then 1 else 0)
     | _ \<Rightarrow> NaN)"

section \<open>Prompt templates (packages/ai-services/src/prompts.ts)\<close>

text \<open>
  A prompt template as the class declares its four constants; the fields carry the prefix
  \<open>t_\<close>. The template texts are the source's template literals, given as their lines.
\<close>

text \<open>A multi-line template literal is its lines joined by newline characters.\<close>

fun lines_text :: "string list \<Rightarrow> string" where
  "lines_text [] = []"
| "lines_text [l] = l"
| "lines_text (l # l' # ls) = l @ CHR 0x0A # lines_text (l' # ls)"

record PromptTemplate =
  t_id :: string
  t_name :: string
  t_version :: string
  t_analysisType :: string
  t_template :: string
  t_variables :: "string list"
  t_estimatedTokens :: int

definition QUICK_SCAN_lines :: "string list" where
  \<open>QUICK_SCAN_lines = [
     ''Analyze this YouTube channel for a quick assessment:'',
     '''',
     ''Channel: {{channelTitle}}'',
     ''Description: {{channelDescription}}'',
     ''Subscribers: {{subscriberCount}}'',
     ''Videos: {{videoCount}}'',
     ''Total Views: {{viewCount}}'',
     ''Content Type: {{contentType}}'',
     ''Topics: {{topics}}'',
     '''',
     ''Provide a concise analysis in JSON format:'',
     ''{'',
     '' "strengths": {'',
     ''   "summary": "Brief overview of main strengths",'',
     ''   "details": ["strength 1", "strength 2", "strength 3"],'',
     ''   "score": 0-100'',
     '' },'',
     '' "weaknesses": {'',
     ''   "summary": "Brief overview of main weaknesses",'',
     ''   "details": ["weakness 1", "weakness 2"],'',
     ''   "areas": ["area for improvement 1", "area 2"]'',
     '' },'',
     '' "opportunities": {'',
     ''   "summary": "Key growth opportunities",'',
     ''   "recommendations": ['',
     ''     {'',
     ''       "title": "Recommendation title",'',
     ''       "description": "Detailed description",'',
     ''       "priority": "HIGH|MEDIUM|LOW",'',
     ''       "estimatedImpact": "Description of potential impact"'',
     ''     }'',
     ''   ]'',
     '' },'',
     '' "scores": {'',
     ''   "overall": 0-100,'',
     ''   "contentQuality": 0-100,'',
     ''   "engagement": 0-100,'',
     ''   "growthPotential": 0-100'',
     '' }'',
     ''}'',
     '''',
     ''Focus on actionable insights. Be specific and constructive.'']\<close>

definition QUICK_SCAN_text :: string where
  "QUICK_SCAN_text = lines_text QUICK_SCAN_lines"

definition QUICK_SCAN :: PromptTemplate where
  "QUICK_SCAN = \<lparr>t_id = ''quick_scan_v1'', t_name = ''Quick Channel Scan'', t_version = ''1.0'',
     t_analysisType = ''QUICK_SCAN'', t_template = QUICK_SCAN_text,
     t_variables = [''channelTitle'', ''channelDescription'', ''subscriberCount'', ''videoCount'', ''viewCount'', ''contentType'', ''topics''],
     t_estimatedTokens = 800\<rparr>"

definition DEEP_DIVE_lines :: "string list" where
  \<open>DEEP_DIVE_lines = [
     ''Perform a comprehensive analysis of this YouTube channel:'',
     '''',
     ''Channel Information:'',
     ''- Title: {{channelTitle}}'',
     ''- Description: {{channelDescription}}'',
     ''- Subscribers: {{subscriberCount}}'',
     ''- Total Videos: {{videoCount}}'',
     ''- Total Views: {{viewCount}}'',
     ''- Content Type: {{contentType}}'',
     ''- Topics: {{topics}}'',
     ''- Published: {{publishedAt}}'',
     '''',
     ''{{#if recentVideos}}'',
     ''Recent Videos Performance:'',
     ''{{#each recentVideos}}'',
     ''- "{{title}}" - {{views}} views, {{likes}} likes, {{comments}} comments ({{publishedAt}})'',
     ''{{/each}}'',
     ''{{/if}}'',
     '''',
     ''Provide a detailed analysis in JSON format with:'',
     '''',
     ''1. **Comprehensive Strengths Analysis**'',
     ''2. **Detailed Weaknesses Assessment**'',
     ''3. **Growth Opportunities with Priorities**'',
     ''4. **Content Strategy Recommendations**'',
     ''5. **Competitive Positioning**'',
     ''6. **Detailed Scoring with Rationale**'',
     '''',
     ''JSON Response Format:'',
     ''{'',
     '' "strengths": {'',
     ''   "summary": "Detailed overview of channel strengths",'',
     ''   "details": ["specific strength with evidence", "strength 2", "strength 3", "strength 4", "strength 5"],'',
     ''   "score": 0-100'',
     '' },'',
     '' "weaknesses": {'',
     ''   "summary": "Comprehensive weakness analysis",'',
     ''   "details": ["specific weakness with suggestion", "weakness 2", "weakness 3"],'',
     ''   "areas": ["improvement area 1", "area 2", "area 3"]'',
     '' },'',
     '' "opportunities": {'',
     ''   "summary": "Strategic growth opportunities",'',
     ''   "recommendations": ['',
     ''     {'',
     ''       "title": "Specific actionable recommendation",'',
     ''       "description": "Detailed implementation strategy",'',
     ''       "priority": "HIGH|MEDIUM|LOW",'',
     ''       "estimatedImpact": "Quantified impact description"'',
     ''     }'',
     ''   ]'',
     '' },'',
     '' "contentStrategy": {'',
     ''   "recommendedTopics": ["topic 1", "topic 2", "topic 3"],'',
     ''   "contentGaps": ["gap 1", "gap 2"],'',
     ''   "optimizationTips": ["tip 1", "tip 2", "tip 3"]'',
     '' },'',
     '' "scores": {'',
     ''   "overall": 0-100,'',
     ''   "contentQuality": 0-100,'',
     ''   "engagement": 0-100,'',
     ''   "growthPotential": 0-100'',
     '' }'',
     ''}'',
     '''',
     ''Provide data-driven insights with specific examples and actionable recommendations.'']\<close>

definition DEEP_DIVE_text :: string where
  "DEEP_DIVE_text = lines_text DEEP_DIVE_lines"

definition DEEP_DIVE :: PromptTemplate where
  "DEEP_DIVE = \<lparr>t_id = ''deep_dive_v1'', t_name = ''Deep Channel Analysis'', t_version = ''1.0'',
     t_analysisType = ''DEEP_DIVE'', t_template = DEEP_DIVE_text,
     t_variables = [''channelTitle'', ''channelDescription'', ''subscriberCount'', ''videoCount'', ''viewCount'', ''contentType'', ''topics'', ''publishedAt'', ''recentVideos''],
     t_estimatedTokens = 1500\<rparr>"

definition COMPETITOR_COMPARE_lines :: "string list" where
  \<open>COMPETITOR_COMPARE_lines = [
     ''Analyze this channel in comparison to its competitive landscape:'',
     '''',
     ''Target Channel:'',
     ''- Title: {{channelTitle}}'',
     ''- Subscribers: {{subscriberCount}}'',
     ''- Content Type: {{contentType}}'',
     ''- Topics: {{topics}}'',
     '''',
     ''Analyze competitive positioning and provide strategic insights in JSON format:'',
     '''',
     ''{'',
     '' "strengths": {'',
     ''   "summary": "Competitive advantages analysis",'',
     ''   "details": ["unique strength vs competitors", "advantage 2", "advantage 3"],'',
     ''   "score": 0-100'',
     '' },'',
     '' "weaknesses": {'',
     ''   "summary": "Competitive disadvantages",'',
     ''   "details": ["gap vs competitors", "weakness 2"],'',
     ''   "areas": ["area to match competitors", "improvement area 2"]'',
     '' },'',
     '' "opportunities": {'',
     ''   "summary": "Market gaps and opportunities",'',
     ''   "recommendations": ['',
     ''     {'',
     ''       "title": "Competitive opportunity",'',
     ''       "description": "How to capitalize vs competitors",'',
     ''       "priority": "HIGH|MEDIUM|LOW",'',
     ''       "estimatedImpact": "Competitive advantage gained"'',
     ''     }'',
     ''   ]'',
     '' },'',
     '' "competitors": {'',
     ''   "similarChannels": ['',
     ''     {'',
     ''       "channelId": "estimated_channel_id",'',
     ''       "name": "Competitor channel name",'',
     ''       "subscribers": 0,'',
     ''       "whyRelevant": "Why this channel is a relevant competitor"'',
     ''     }'',
     ''   ],'',
     ''   "competitiveAdvantages": ["advantage 1", "advantage 2"],'',
     ''   "gaps": ["gap to fill", "gap 2"]'',
     '' },'',
     '' "scores": {'',
     ''   "overall": 0-100,'',
     ''   "contentQuality": 0-100,'',
     ''   "engagement": 0-100,'',
     ''   "growthPotential": 0-100'',
     '' }'',
     ''}'',
     '''',
     ''Focus on competitive differentiation and market positioning.'']\<close>

definition COMPETITOR_COMPARE_text :: string where
  "COMPETITOR_COMPARE_text = lines_text COMPETITOR_COMPARE_lines"

definition COMPETITOR_COMPARE :: PromptTemplate where
  "COMPETITOR_COMPARE = \<lparr>t_id = ''competitor_compare_v1'', t_name = ''Competitor Comparison'', t_version = ''1.0'',
     t_analysisType = ''COMPETITOR_COMPARE'', t_template = COMPETITOR_COMPARE_text,
     t_variables = [''channelTitle'', ''subscriberCount'', ''contentType'', ''topics''],
     t_estimatedTokens = 1200\<rparr>"

definition GROWTH_STRATEGY_lines :: "string list" where
  \<open>GROWTH_STRATEGY_lines = [
     ''Create a comprehensive growth strategy for this YouTube channel:'',
     '''',
     ''Channel Details:'',
     ''- Title: {{channelTitle}}'',
     ''- Current Subscribers: {{subscriberCount}}'',
     ''- Content Focus: {{contentType}}'',
     ''- Topics: {{topics}}'',
     '''',
     ''{{#if recentVideos}}'',
     ''Recent Performance:'',
     ''{{#each recentVideos}}'',
     ''- "{{title}}" - {{views}} views, {{likes}} likes ({{publishedAt}})'',
     ''{{/each}}'',
     ''{{/if}}'',
     '''',
     ''Develop a strategic growth plan in JSON format:'',
     '''',
     ''{'',
     '' "strengths": {'',
     ''   "summary": "Current assets to leverage for growth",'',
     ''   "details": ["leverageable strength 1", "growth asset 2", "strength 3"],'',
     ''   "score": 0-100'',
     '' },'',
     '' "weaknesses": {'',
     ''   "summary": "Growth blockers to address",'',
     ''   "details": ["growth blocker 1", "limiting factor 2"],'',
     ''   "areas": ["critical improvement area", "optimization area 2"]'',
     '' },'',
     '' "opportunities": {'',
     ''   "summary": "Strategic growth opportunities",'',
     ''   "recommendations": ['',
     ''     {'',
     ''       "title": "Growth strategy recommendation",'',
     ''       "description": "Detailed implementation plan with timeline",'',
     ''       "priority": "HIGH|MEDIUM|LOW",'',
     ''       "estimatedImpact": "Expected growth outcome (subscribers, views, etc.)"'',
     ''     }'',
     ''   ]'',
     '' },'',
     '' "contentStrategy": {'',
     ''   "recommendedTopics": ["high-growth topic 1", "trending topic 2", "niche topic 3"],'',
     ''   "contentGaps": ["underserved content area 1", "gap 2"],'',
     ''   "optimizationTips": ['',
     ''     "SEO optimization strategy",'',
     ''     "Engagement optimization tip",'',
     ''     "Algorithm optimization strategy"'',
     ''   ]'',
     '' },'',
     '' "scores": {'',
     ''   "overall": 0-100,'',
     ''   "contentQuality": 0-100,'',
     ''   "engagement": 0-100,'',
     ''   "growthPotential": 0-100'',
     '' }'',
     ''}'',
     '''',
     ''Focus on actionable, timeline-specific growth strategies with measurable outcomes.'']\<close>

definition GROWTH_STRATEGY_text :: string where
  "GROWTH_STRATEGY_text = lines_text GROWTH_STRATEGY_lines"

definition GROWTH_STRATEGY :: PromptTemplate where
  "GROWTH_STRATEGY = \<lparr>t_id = ''growth_strategy_v1'', t_name = ''Growth Strategy Analysis'', t_version = ''1.0'',
     t_analysisType = ''GROWTH_STRATEGY'', t_template = GROWTH_STRATEGY_text,
     t_variables = [''channelTitle'', ''subscriberCount'', ''contentType'', ''topics'', ''recentVideos''],
     t_estimatedTokens = 1400\<rparr>"

text \<open>\<open>getPromptTemplate\<close>: \<open>Inl\<close> is the message of the error thrown for an unknown
  analysis type.\<close>

definition getPromptTemplate :: "string \<Rightarrow> string + PromptTemplate" where
  "getPromptTemplate analysisType' =
     (if analysisType' = ''QUICK_SCAN'' then Inr QUICK_SCAN
      else if analysisType' = ''DEEP_DIVE'' then Inr DEEP_DIVE
      else if analysisType' = ''COMPETITOR_COMPARE'' then Inr COMPETITOR_COMPARE
      else if analysisType' = ''GROWTH_STRATEGY'' then Inr GROWTH_STRATEGY
      else Inl (''Unknown analysis type: '' @ analysisType'))"

subsection \<open>Matching\<close>

text \<open>The regular expression class \<open>\w\<close>: letters, digits and the underscore.\<close>

definition word_char :: "char \<Rightarrow> bool" where
  "word_char c =
     (let n = (of_char c :: nat) in
      (97 \<le> n \<and> n \<le> 122) \<or> (65 \<le> n \<and> n \<le> 90) \<or> (48 \<le> n \<and> n \<le> 57) \<or> n = 95)"

text \<open>A literal at the start of a text: the rest of the text after it.\<close>

fun strip_prefix :: "string \<Rightarrow> string \<Rightarrow> string option" where
  "strip_prefix [] s = Some s"
| "strip_prefix (p # ps) [] = None"
| "strip_prefix (p # ps) (c # cs) = (if p = c then strip_prefix ps cs else None)"

text \<open>The first occurrence of a literal in a text: the text before it and the text after
  it. This is the lazy \<open>[\s\S]*?\<close> followed by the literal.\<close>

fun find_sub :: "string \<Rightarrow> string \<Rightarrow> (string \<times> string) option" where
  "find_sub pat [] = (if pat = [] then Some ([], []) else None)"
| "find_sub pat (c # cs) =
     (case strip_prefix pat (c # cs) of
        Some rest \<Rightarrow> Some ([], rest)
      | None \<Rightarrow> (case find_sub pat cs of
                   Some (pre, post) \<Rightarrow> Some (c # pre, post)
                 | None \<Rightarrow> None))"

text \<open>
  The replacement text of \<open>String.prototype.replace\<close> with a string argument, for a
  pattern without capture groups: \<open>$$\<close> is a dollar sign, \<open>$&\<close> the matched text,
  \<open>$`\<close> the text before the match and \<open>$'\<close> the text after it; every other character,
  also a \<open>$\<close> followed by anything else, stands for itself.
\<close>

fun expand_replacement :: "string \<Rightarrow> string \<Rightarrow> string \<Rightarrow> string \<Rightarrow> string" where
  "expand_replacement [] matched pre post = []"
| "expand_replacement [c] matched pre post = [c]"
| "expand_replacement (c # d # r) matched pre post =
     (if c = CHR ''$'' \<and> d = CHR ''$'' then CHR ''$'' # expand_replacement r matched pre post
      else if c = CHR ''$'' \<and> d = CHR ''&'' then matched @ expand_replacement r matched pre post
      else if c = CHR ''$'' \<and> d = CHR 0x60 then pre @ expand_replacement r matched pre post
      else if c = CHR ''$'' \<and> d = CHR 0x27 then post @ expand_replacement r matched pre post
      else c # expand_replacement (d # r) matched pre post)"

definition token :: "string \<Rightarrow> string" where
  "token key = ''{{'' @ key @ ''}}''"

text \<open>
  \<open>result.replace(new RegExp(`{{${key}}}`, 'g'), replacement)\<close> for a key made of word
  characters, not all of them digits, so that the expression is the literal
  \<open>{{key}}\<close>: every occurrence, from left to right, is replaced. \<open>seen\<close> is the text
  already passed, reversed.
\<close>

function replace_token :: "string \<Rightarrow> string \<Rightarrow> string \<Rightarrow> string \<Rightarrow> string" where
  "replace_token key replacement seen [] = []"
| "replace_token key replacement seen (c # cs) =
     (case strip_prefix (token key) (c # cs) of
        Some rest \<Rightarrow>
          expand_replacement replacement (token key) (rev seen) rest
            @ replace_token key replacement (rev (token key) @ seen) rest
      | None \<Rightarrow> c # replace_token key replacement (c # seen) cs)"
  by pat_completeness auto

lemma strip_prefix_length:
  "strip_prefix p s = Some r \<Longrightarrow> length s = length p + length r"
  by (induction p s rule: strip_prefix.induct) (auto split: if_splits)

termination replace_token
proof (relation "measure (\<lambda>(key, replacement, seen, s). length s)")
  fix key replacement seen :: string and c cs rest
  assume "strip_prefix (token key) (c # cs) = Some rest"
  then have "length (c # cs) = length (token key) + length rest"
    by (rule strip_prefix_length)
  then show "((key, replacement, rev (token key) @ seen, rest), (key, replacement, seen, c # cs))
      \<in> measure (\<lambda>(key, replacement, seen, s). length s)"
    by (simp add: token_def)
qed simp_all

text \<open>
  One match of \<open>{{#if (\w+)}}([\s\S]*?){{\/if}}\<close> or of
  \<open>{{#each (\w+)}}([\s\S]*?){{\/each}}\<close> at the start of a text: the name, the content
  and the text after the match.
\<close>

definition match_block :: "string \<Rightarrow> string \<Rightarrow> string \<Rightarrow> (string \<times> string \<times> string) option" where
  "match_block opener closer s =
     (case strip_prefix opener s of
        None \<Rightarrow> None
      | Some s1 \<Rightarrow>
          let varName = takeWhile word_char s1 in
          if varName = [] then None
          else (case strip_prefix ''}}'' (dropWhile word_char s1) of
                  None \<Rightarrow> None
                | Some s2 \<Rightarrow>
                    (case find_sub closer s2 of
                       None \<Rightarrow> None
                     | Some (content, rest) \<Rightarrow> Some (varName, content, rest))))"

text \<open>\<open>result.replace(regex, f)\<close> for such an expression with the flag \<open>g\<close> and a
  replacement function of the name and the content.\<close>

function replace_blocks :: "string \<Rightarrow> string \<Rightarrow> (string \<Rightarrow> string \<Rightarrow> string) \<Rightarrow> string \<Rightarrow> string" where
  "replace_blocks opener closer f [] = []"
| "replace_blocks opener closer f (c # cs) =
     (case match_block opener closer (c # cs) of
        Some (varName, content, rest) \<Rightarrow> f varName content @ replace_blocks opener closer f rest
      | None \<Rightarrow> c # replace_blocks opener closer f cs)"
  by pat_completeness auto

lemma find_sub_length:
  "find_sub pat s = Some (pre, post) \<Longrightarrow> length post \<le> length s"
proof (induction s arbitrary: pre)
  case Nil
  then show ?case by (simp split: if_splits)
next
  case (Cons c cs)
  then show ?case
    by (auto split: option.splits dest!: strip_prefix_length)
qed

lemma match_block_length:
  assumes "match_block opener closer s = Some (varName, content, rest)"
  shows "length rest < length s"
proof -
  from assms obtain s1 s2 where s1: "strip_prefix opener s = Some s1"
    and s2: "strip_prefix ''}}'' (dropWhile word_char s1) = Some s2"
    and rest: "find_sub closer s2 = Some (content, rest)"
    by (auto simp: match_block_def Let_def split: option.splits if_splits)
  have "length rest \<le> length s2"
    using rest by (rule find_sub_length)
  moreover have "length s2 < length (dropWhile word_char s1)"
    using strip_prefix_length [OF s2] by simp
  moreover have "length (dropWhile word_char s1) \<le> length s1"
    by (rule length_dropWhile_le)
  moreover have "length s1 \<le> length s"
    using strip_prefix_length [OF s1] by simp
  ultimately show ?thesis by linarith
qed

termination replace_blocks
  by (relation "measure (\<lambda>(opener, closer, f, s). length s)")
    (auto dest: match_block_length)

subsection \<open>Rendering\<close>

text \<open>
  The values of the variables mapping that the provider clients pass: a string, an array
  of objects, or \<open>undefined\<close>. An object of the array is the list of its entries in
  property order, each value already converted by \<open>String\<close>.
\<close>

datatype tvalue = VStr string | VArr "(string \<times> string) list list" | VUndefined

text \<open>\<open>String(value)\<close>: an array is its elements joined by commas, and an object
  prints as \<open>[object Object]\<close>.\<close>

fun join_commas :: "string list \<Rightarrow> string" where
  "join_commas [] = []"
| "join_commas [x] = x"
| "join_commas (x # y # ys) = x @ '','' @ join_commas (y # ys)"

fun String_of :: "tvalue \<Rightarrow> string" where
  "String_of (VStr s) = s"
| "String_of (VArr items) = join_commas (map (\<lambda>item. ''[object Object]'') items)"
| "String_of VUndefined = ''undefined''"

text \<open>The truth value of \<open>variables[varName]\<close>; a missing key reads as \<open>undefined\<close>.\<close>

fun var_truthy :: "tvalue option \<Rightarrow> bool" where
  "var_truthy (Some (VStr s)) = (s \<noteq> [])"
| "var_truthy (Some (VArr items)) = True"
| "var_truthy (Some VUndefined) = False"
| "var_truthy None = False"

type_synonym variables = "(string \<times> tvalue) list"

text \<open>First pass: one global replacement for each entry of the mapping, in order.\<close>

definition substitute :: "variables \<Rightarrow> string \<Rightarrow> string" where
  "substitute vars template =
     fold (\<lambda>(key, value) result. replace_token key (String_of value) [] result) vars template"

text \<open>Second pass: conditional blocks.\<close>

definition conditionals :: "variables \<Rightarrow> string \<Rightarrow> string" where
  "conditionals vars result =
     replace_blocks ''{{#if '' ''{{/if}}''
       (\<lambda>varName content. if var_truthy (map_of vars varName) then content else [])
       result"

text \<open>Third pass: loops. The body is rendered once for each element, with the element's
  own entries replaced in it.\<close>

definition render_item :: "string \<Rightarrow> (string \<times> string) list \<Rightarrow> string" where
  "render_item template item =
     fold (\<lambda>(prop, val) itemResult. replace_token prop val [] itemResult) item template"

definition loops :: "variables \<Rightarrow> string \<Rightarrow> string" where
  "loops vars result =
     replace_blocks ''{{#each '' ''{{/each}}''
       (\<lambda>varName template.
          case map_of vars varName of
            Some (VArr array) \<Rightarrow> concat (map (render_item template) array)
          | _ \<Rightarrow> [])
       result"

definition replaceVariables :: "string \<Rightarrow> variables \<Rightarrow> string" where
  "replaceVariables template vars =
     (let result = template;
          result = substitute vars result;
          result = conditionals vars result;
          result = loops vars result
      in result)"

definition estimateTokens :: "string \<Rightarrow> int" where
  "estimateTokens text = (int (length text) + 3) div 4"

subsection \<open>Names referenced by a text\<close>

text \<open>
  A name is referenced by a text where the text holds \<open>{{name}}\<close> with a name of word
  characters: these are the tokens the first pass and the loop pass can replace. The
  names are listed in the order of their occurrences.
\<close>

definition token_at :: "string \<Rightarrow> string option" where
  "token_at s =
     (case strip_prefix ''{{'' s of
        None \<Rightarrow> None
      | Some s1 \<Rightarrow>
          let varName = takeWhile word_char s1 in
          if varName = [] then None
          else (case strip_prefix ''}}'' (dropWhile word_char s1) of
                  None \<Rightarrow> None
                | Some _ \<Rightarrow> Some varName))"

fun referenced :: "string \<Rightarrow> string list" where
  "referenced [] = []"
| "referenced (c # cs) =
     (case token_at (c # cs) of
        Some varName \<Rightarrow> varName # referenced cs
      | None \<Rightarrow> referenced cs)"

section \<open>Requests, responses and the outside world\<close>

text \<open>
  \<open>AIAnalysisRequest\<close> (its \<open>options\<close> are read nowhere in the code and are left out),
  the options of \<open>analyzeChannel\<close> and \<open>AIServiceResponse\<close>. Fields carry a prefix
  that names their object.
\<close>

record video =
  v_title :: string
  v_views :: int
  v_likes :: int
  v_comments :: int
  v_publishedAt :: string

record channelData =
  cd_id :: string
  cd_title :: string
  cd_description :: string
  cd_subscriberCount :: int
  cd_videoCount :: int
  cd_viewCount :: int
  cd_contentType :: string
  cd_topics :: "string list"
  cd_recentVideos :: "video list option"

record AIAnalysisRequest =
  req_channelData :: channelData
  req_analysisType :: string

record analyze_options =
  opt_provider :: "AIProvider option"
  opt_model :: "string option"
  opt_fallbackProvider :: "AIProvider option"

record ServiceError =
  err_code :: string
  err_message :: string
  err_provider :: "AIProvider option"

record ResponseMetadata =
  meta_requestId :: string
  meta_processingTime :: int
  meta_tokensUsed :: int
  meta_costCents :: int

record AIServiceResponse =
  resp_success :: bool
  resp_data :: "AIAnalysisResponse option"
  resp_error :: "ServiceError option"
  resp_metadata :: ResponseMetadata

record CostEstimate =
  est_provider :: AIProvider
  est_model :: string
  estimatedInputTokens :: int
  estimatedOutputTokens :: int
  estimatedCostCents :: int

text \<open>What \<open>makeAPICall\<close> returns: the generated text and the token counts of the
  provider's \<open>usage\<close> object.\<close>

record api_reply =
  reply_content :: string
  reply_input_tokens :: int
  reply_output_tokens :: int
  reply_total_tokens :: int

text \<open>
  Everything the code reads from outside itself during one call: the clock, the elapsed
  time a client measures, the random part of a request id, the language's conversions
  (\<open>toLocaleString\<close>, \<open>String\<close> of a number, \<open>JSON.parse\<close>, \<open>Number\<close>), and the two
  providers' HTTP services behind \<open>makeAPICall\<close>, as functions of the prompt, the model
  and its configuration: \<open>Inl\<close> is the message of the error \<open>makeAPICall\<close> throws.
\<close>

record world =
  w_clock :: int
  w_elapsed :: int
  w_request_id :: string
  w_toLocaleString :: "int \<Rightarrow> string"
  w_String :: "int \<Rightarrow> string"
  w_JSON_parse :: "string \<Rightarrow> string + jsv"
  w_Number :: "jsv \<Rightarrow> jsnum"
  w_openai :: "string \<Rightarrow> string \<Rightarrow> AIModelConfig \<Rightarrow> string + api_reply"
  w_claude :: "string \<Rightarrow> string \<Rightarrow> AIModelConfig \<Rightarrow> string + api_reply"

section \<open>Provider clients: analyzeChannel\<close>

fun join_with :: "string \<Rightarrow> string list \<Rightarrow> string" where
  "join_with sep [] = []"
| "join_with sep [x] = x"
| "join_with sep (x # y # ys) = x @ sep @ join_with sep (y # ys)"

text \<open>The entries of one element of \<open>recentVideos\<close>, in the order the type declares
  them.\<close>

definition video_entries :: "world \<Rightarrow> video \<Rightarrow> (string \<times> string) list" where
  "video_entries w v =
     [(''title'', v_title v), (''views'', w_String w (v_views v)),
      (''likes'', w_String w (v_likes v)), (''comments'', w_String w (v_comments v)),
      (''publishedAt'', v_publishedAt v)]"

text \<open>The \<open>variables\<close> object both clients build from the request.\<close>

definition request_variables :: "world \<Rightarrow> AIAnalysisRequest \<Rightarrow> variables" where
  "request_variables w request =
     (let cd = req_channelData request in
      [(''channelTitle'', VStr (cd_title cd)),
       (''channelDescription'', VStr (cd_description cd)),
       (''subscriberCount'', VStr (w_toLocaleString w (cd_subscriberCount cd))),
       (''videoCount'', VStr (w_toLocaleString w (cd_videoCount cd))),
       (''viewCount'', VStr (w_toLocaleString w (cd_viewCount cd))),
       (''contentType'', VStr (cd_contentType cd)),
       (''topics'', VStr (join_with '', '' (cd_topics cd))),
       (''recentVideos'',
          VArr (map (video_entries w)
            (case cd_recentVideos cd of None \<Rightarrow> [] | Some videos \<Rightarrow> videos)))])"

text \<open>The failure result of a client's \<open>catch\<close> block.\<close>

definition client_failure :: "world \<Rightarrow> string \<Rightarrow> AIProvider \<Rightarrow> string \<Rightarrow> AIServiceResponse" where
  "client_failure w error_code p error_message =
     \<lparr>resp_success = False, resp_data = None,
      resp_error = Some \<lparr>err_code = error_code, err_message = error_message,
                          err_provider = Some p\<rparr>,
      resp_metadata = \<lparr>meta_requestId = w_request_id w, meta_processingTime = w_elapsed w,
                        meta_tokensUsed = 0, meta_costCents = 0\<rparr>\<rparr>"

text \<open>
  \<open>OpenAIService.analyzeChannel\<close>. The inner \<open>case\<close> is the \<open>try\<close> block, \<open>Inl\<close> the
  message of an error thrown in it; the outer one is the \<open>catch\<close>, which turns every
  error into a failure result, so the function always returns a result.
\<close>

definition OpenAI_analyzeChannel :: "world \<Rightarrow> AIAnalysisRequest \<Rightarrow> string \<Rightarrow> AIServiceResponse" where
  "OpenAI_analyzeChannel w request model' =
     (case
        (case getPromptTemplate (req_analysisType request) of
           Inl e \<Rightarrow> Inl e
         | Inr promptTemplate \<Rightarrow>
             let vars = request_variables w request;
                 prompt = replaceVariables (t_template promptTemplate) vars
             in (case OpenAI_MODEL_CONFIGS model' of
                   None \<Rightarrow> Inl (''Unsupported model: '' @ model')
                 | Some config \<Rightarrow>
                     (case w_openai w prompt model' config of
                        Inl e \<Rightarrow> Inl e
                      | Inr response \<Rightarrow>
                          (case OpenAI_parseAnalysisResponse (w_JSON_parse w) (w_Number w)
                                  (reply_content response) of
                             Inl e \<Rightarrow> Inl e
                           | Inr analysisResult \<Rightarrow>
                               let totalCost = OpenAI_calculateCost (reply_input_tokens response)
                                     (reply_output_tokens response) config;
                                   processingTime' = w_elapsed w
                               in Inr \<lparr>resp_success = True,
                                    resp_data = Some (analysisResult\<lparr>
                                      metadata_aiModel := model',
                                      metadata_promptVersion := t_version promptTemplate,
                                      metadata_processingTime := processingTime',
                                      metadata_confidence := OpenAI_calculateConfidence analysisResult,
                                      metadata_costCents := costCents_of totalCost\<rparr>),
                                    resp_error = None,
                                    resp_metadata = \<lparr>meta_requestId = w_request_id w,
                                      meta_processingTime = processingTime',
                                      meta_tokensUsed = reply_total_tokens response,
                                      meta_costCents = costCents_of totalCost\<rparr>\<rparr>)))) of
        Inl error_message \<Rightarrow> client_failure w ''OPENAI_ERROR'' openai error_message
      | Inr result \<Rightarrow> result)"

text \<open>\<open>ClaudeService.analyzeChannel\<close>, of the same shape.\<close>

definition Claude_analyzeChannel :: "world \<Rightarrow> AIAnalysisRequest \<Rightarrow> string \<Rightarrow> AIServiceResponse" where
  "Claude_analyzeChannel w request model' =
     (case
        (case getPromptTemplate (req_analysisType request) of
           Inl e \<Rightarrow> Inl e
         | Inr promptTemplate \<Rightarrow>
             let vars = request_variables w request;
                 prompt = replaceVariables (t_template promptTemplate) vars
             in (case Claude_MODEL_CONFIGS model' of
                   None \<Rightarrow> Inl (''Unsupported model: '' @ model')
                 | Some config \<Rightarrow>
                     (case w_claude w prompt model' config of
                        Inl e \<Rightarrow> Inl e
                      | Inr response \<Rightarrow>
                          (case Claude_parseAnalysisResponse (w_JSON_parse w) (w_Number w)
                                  (reply_content response) of
                             Inl e \<Rightarrow> Inl e
                           | Inr analysisResult \<Rightarrow>
                               let totalCost = Claude_calculateCost (reply_input_tokens response)
                                     (reply_output_tokens response) config;
                                   processingTime' = w_elapsed w
                               in Inr \<lparr>resp_success = True,
                                    resp_data = Some (analysisResult\<lparr>
                                      metadata_aiModel := model',
                                      metadata_promptVersion := t_version promptTemplate,
                                      metadata_processingTime := processingTime',
                                      metadata_confidence := Claude_calculateConfidence analysisResult,
                                      metadata_costCents := costCents_of totalCost\<rparr>),
                                    resp_error = None,
                                    resp_metadata = \<lparr>meta_requestId = w_request_id w,
                                      meta_processingTime = processingTime',
                                      meta_tokensUsed = reply_input_tokens response
                                        + reply_output_tokens response,
                                      meta_costCents = costCents_of totalCost\<rparr>\<rparr>)))) of
        Inl error_message \<Rightarrow> client_failure w ''CLAUDE_ERROR'' claude error_message
      | Inr result \<Rightarrow> result)"

section \<open>Analyzer (packages/ai-services/src/analyzer.ts)\<close>

text \<open>
  The state of an \<open>AIAnalyzer\<close>: whether each service object exists (the constructor
  creates one when an API key is configured) and the usage history of its cost tracker.
\<close>

record AIAnalyzer =
  openaiService :: bool
  claudeService :: bool
  costTracker :: "UsageRecord list"

text \<open>\<open>Inl\<close> is the message of a thrown error, here and below.\<close>

definition selectOptimalProvider :: "AIAnalyzer \<Rightarrow> AIAnalysisRequest \<Rightarrow> string + AIProvider" where
  "selectOptimalProvider a request =
     (if (req_analysisType request = ''DEEP_DIVE'' \<or> req_analysisType request = ''GROWTH_STRATEGY'')
         \<and> claudeService a then Inr claude
      else if req_analysisType request = ''QUICK_SCAN'' \<and> openaiService a then Inr openai
      else if openaiService a then Inr openai
      else if claudeService a then Inr claude
      else Inl ''No AI services available. Check API keys.'')"

fun provider_name :: "AIProvider \<Rightarrow> string" where
  "provider_name openai = ''openai''"
| "provider_name claude = ''claude''"
| "provider_name google = ''google''"

fun getDefaultModel :: "AIProvider \<Rightarrow> string + string" where
  "getDefaultModel openai = Inr ''gpt-4-turbo''"
| "getDefaultModel claude = Inr ''claude-3-sonnet''"
| "getDefaultModel p = Inl (''Unknown provider: '' @ provider_name p)"

definition estimateInputTokens :: "AIAnalysisRequest \<Rightarrow> int" where
  "estimateInputTokens request =
     (let cd = req_channelData request;
          baseTokens = 500;
          baseTokens = baseTokens + (int (length (cd_title cd)) + 3) div 4;
          baseTokens = baseTokens + (int (length (cd_description cd)) + 3) div 4;
          baseTokens = baseTokens + 50;
          baseTokens = (case cd_recentVideos cd of
                          None \<Rightarrow> baseTokens
                        | Some videos \<Rightarrow> baseTokens + int (length videos) * 100)
      in if req_analysisType request = ''QUICK_SCAN'' then baseTokens + 300
         else if req_analysisType request = ''DEEP_DIVE'' then baseTokens + 800
         else if req_analysisType request = ''COMPETITOR_COMPARE'' then baseTokens + 600
         else if req_analysisType request = ''GROWTH_STRATEGY'' then baseTokens + 700
         else baseTokens + 500)"

definition estimateOutputTokens :: "string \<Rightarrow> int" where
  "estimateOutputTokens analysisType' =
     (if analysisType' = ''QUICK_SCAN'' then 800
      else if analysisType' = ''DEEP_DIVE'' then 1500
      else if analysisType' = ''COMPETITOR_COMPARE'' then 1200
      else if analysisType' = ''GROWTH_STRATEGY'' then 1400
      else 1000)"

text \<open>\<open>estimateCost(request, provider, model)\<close>; an empty model name counts as none.\<close>

definition estimateCost :: "AIAnalysisRequest \<Rightarrow> AIProvider \<Rightarrow> string \<Rightarrow> string + CostEstimate" where
  "estimateCost request p model' =
     (case (if model' \<noteq> [] then Inr model' else getDefaultModel p) of
        Inl e \<Rightarrow> Inl e
      | Inr selectedModel \<Rightarrow>
          (case (case p of
                   openai \<Rightarrow> Inr (OpenAI_MODEL_CONFIGS selectedModel)
                 | claude \<Rightarrow> Inr (Claude_MODEL_CONFIGS selectedModel)
                 | google \<Rightarrow> Inl (''Unsupported provider: '' @ provider_name p)) of
             Inl e \<Rightarrow> Inl e
           | Inr None \<Rightarrow>
               Inl (''Unknown model: '' @ selectedModel @ '' for provider: '' @ provider_name p)
           | Inr (Some modelConfig) \<Rightarrow>
               let estimatedInput = estimateInputTokens request;
                   estimatedOutput = estimateOutputTokens (req_analysisType request);
                   inputCost = (real_of_int estimatedInput / 1000) * costPerInputToken modelConfig;
                   outputCost = (real_of_int estimatedOutput / 1000) * costPerOutputToken modelConfig
               in Inr \<lparr>est_provider = p, est_model = selectedModel,
                        estimatedInputTokens = estimatedInput,
                        estimatedOutputTokens = estimatedOutput,
                        estimatedCostCents = costCents_of (inputCost + outputCost)\<rparr>))"

text \<open>The \<open>switch\<close> inside the \<open>try\<close> block of \<open>analyzeChannel\<close>: the result of the
  selected client, or the error thrown when its service object does not exist.\<close>

definition invoke_provider ::
  "world \<Rightarrow> AIAnalyzer \<Rightarrow> AIProvider \<Rightarrow> AIAnalysisRequest \<Rightarrow> string \<Rightarrow> string + AIServiceResponse" where
  "invoke_provider w a p request model' =
     (case p of
        openai \<Rightarrow>
          if \<not> openaiService a then Inl ''OpenAI service not initialized. Check API key.''
          else Inr (OpenAI_analyzeChannel w request model')
      | claude \<Rightarrow>
          if \<not> claudeService a then Inl ''Claude service not initialized. Check API key.''
          else Inr (Claude_analyzeChannel w request model')
      | google \<Rightarrow> Inl (''Unsupported provider: '' @ provider_name p))"

text \<open>The record written after a successful result, and the record and the result of the
  \<open>catch\<close> block.\<close>

definition success_usage :: "AIProvider \<Rightarrow> string \<Rightarrow> AIAnalysisRequest \<Rightarrow> AIServiceResponse \<Rightarrow> UsageRecord" where
  "success_usage p model' request result =
     \<lparr>provider = provider_name p, model = model', analysisType = req_analysisType request,
      tokensUsed = meta_tokensUsed (resp_metadata result),
      costCents = meta_costCents (resp_metadata result),
      processingTime = meta_processingTime (resp_metadata result),
      success = True, error = None, timestamp = None\<rparr>"

definition failed_usage :: "AIProvider \<Rightarrow> string \<Rightarrow> AIAnalysisRequest \<Rightarrow> string \<Rightarrow> UsageRecord" where
  "failed_usage p model' request error_message =
     \<lparr>provider = provider_name p, model = model', analysisType = req_analysisType request,
      tokensUsed = 0, costCents = 0, processingTime = 0,
      success = False, error = Some error_message, timestamp = None\<rparr>"

definition analysis_failed :: "world \<Rightarrow> AIProvider \<Rightarrow> string \<Rightarrow> AIServiceResponse" where
  "analysis_failed w p error_message =
     \<lparr>resp_success = False, resp_data = None,
      resp_error = Some \<lparr>err_code = ''ANALYSIS_FAILED'', err_message = error_message,
                          err_provider = Some p\<rparr>,
      resp_metadata = \<lparr>meta_requestId = ''failed_'' @ w_String w (w_clock w),
                        meta_processingTime = 0, meta_tokensUsed = 0, meta_costCents = 0\<rparr>\<rparr>"

text \<open>
  \<open>AIAnalyzer.analyzeChannel(request, options)\<close>. The result is \<open>Inl\<close> with the message
  when an error leaves the function (the promise is rejected), and otherwise the returned
  result with the analyzer's new state. The provider, the model and the cost estimate are
  computed before the \<open>try\<close> block; an error thrown in the block is caught, and the
  handler calls \<open>analyzeChannel\<close> again when a different fallback provider is given.
\<close>

function analyzeChannel ::
  "world \<Rightarrow> AIAnalyzer \<Rightarrow> AIAnalysisRequest \<Rightarrow> analyze_options
     \<Rightarrow> string + (AIServiceResponse \<times> AIAnalyzer)" where
  "analyzeChannel w a request options =
     (case (case opt_provider options of
              Some p \<Rightarrow> Inr p
            | None \<Rightarrow> selectOptimalProvider a request) of
        Inl e \<Rightarrow> Inl e
      | Inr p \<Rightarrow>
          (case (case opt_model options of
                   None \<Rightarrow> getDefaultModel p
                 | Some m \<Rightarrow> if m \<noteq> [] then Inr m else getDefaultModel p) of
             Inl e \<Rightarrow> Inl e
           | Inr model' \<Rightarrow>
               (case estimateCost request p model' of
                  Inl e \<Rightarrow> Inl e
                | Inr costEstimate \<Rightarrow>
                    (case invoke_provider w a p request model' of
                       Inr result \<Rightarrow>
                         Inr (result,
                              if resp_success result
                              then a\<lparr>costTracker :=
                                     recordUsage (w_clock w) (success_usage p model' request result)
                                       (costTracker a)\<rparr>
                              else a)
                     | Inl error_message \<Rightarrow>
                         (case opt_fallbackProvider options of
                            Some fallback \<Rightarrow>
                              if fallback \<noteq> p
                              then (case getDefaultModel fallback of
                                      Inl e \<Rightarrow> Inl e
                                    | Inr fallbackModel \<Rightarrow>
                                        analyzeChannel w a request
                                          \<lparr>opt_provider = Some fallback,
                                           opt_model = Some fallbackModel,
                                           opt_fallbackProvider = None\<rparr>)
                              else Inr (analysis_failed w p error_message,
                                        a\<lparr>costTracker :=
                                            recordUsage (w_clock w)
                                              (failed_usage p model' request error_message)
                                              (costTracker a)\<rparr>)
                          | None \<Rightarrow>
                              Inr (analysis_failed w p error_message,
                                   a\<lparr>costTracker :=
                                       recordUsage (w_clock w)
                                         (failed_usage p model' request error_message)
                                         (costTracker a)\<rparr>))))))"
  by pat_completeness auto

termination analyzeChannel
  by (relation "measure (\<lambda>(w, a, request, options).
        case opt_fallbackProvider options of None \<Rightarrow> 0 | Some _ \<Rightarrow> Suc 0)")
    auto

text \<open>A request, an analyzer with both services and a world for the examples.\<close>

definition request0 :: AIAnalysisRequest where
  "request0 = \<lparr>req_channelData = \<lparr>cd_id = ''UC123'', cd_title = ''Cooking with Ann'',
       cd_description = ''Weekly recipes'', cd_subscriberCount = 15200, cd_videoCount = 87,
       cd_viewCount = 1250000, cd_contentType = ''Education'',
       cd_topics = [''cooking'', ''baking''], cd_recentVideos = None\<rparr>,
     req_analysisType = ''QUICK_SCAN''\<rparr>"

text \<open>A world in which the OpenAI service answers every call with an HTTP error and the
  Claude service answers with a well-formed analysis.\<close>

definition world0 :: world where
  "world0 = \<lparr>w_clock = 1700000000000, w_elapsed = 420, w_request_id = ''r1'',
     w_toLocaleString = (\<lambda>n. ''n''), w_String = (\<lambda>n. ''n''),
     w_JSON_parse = (\<lambda>s. Inr payload0), w_Number = Number0,
     w_openai = (\<lambda>prompt m config. Inl ''OpenAI API Error: Rate limit reached''),
     w_claude = (\<lambda>prompt m config. Inr \<lparr>reply_content = ''Here it is: {...}'',
        reply_input_tokens = 1000, reply_output_tokens = 2000, reply_total_tokens = 3000\<rparr>)\<rparr>"

definition analyzer0 :: AIAnalyzer where
  "analyzer0 = \<lparr>openaiService = True, claudeService = True, costTracker = []\<rparr>"

section \<open>Properties of the Cost Tracker\<close>

lemma length_recordUsage:
  "length (recordUsage now r h) = min (Suc (length h)) maxHistorySize"
  by (simp add: recordUsage_def slice_last_def Let_def maxHistorySize_def)

lemma recordUsage_eq_drop:
  "recordUsage now r h =
     drop (Suc (length h) - maxHistorySize) (h @ [r\<lparr>timestamp := Some now\<rparr>])"
  by (simp add: recordUsage_def slice_last_def Let_def)

lemma recordUsage_all_general:
  assumes "length h \<le> maxHistorySize"
  shows "recordUsage_all calls h =
     drop (length h + length calls - maxHistorySize) (h @ map stamped calls)"
  using assms
proof (induction calls arbitrary: h)
  case Nil
  then show ?case by simp
next
  case (Cons c calls)
  obtain now r where c: "c = (now, r)" by (cases c)
  let ?h' = "recordUsage now r h"
  have len: "length ?h' \<le> maxHistorySize"
    by (simp add: length_recordUsage)
  have "recordUsage_all (c # calls) h = recordUsage_all calls ?h'"
    by (simp add: c)
  also have "\<dots> = drop (length ?h' + length calls - maxHistorySize) (?h' @ map stamped calls)"
    by (rule Cons.IH [OF len])
  also have "\<dots> = drop (length h + length (c # calls) - maxHistorySize) (h @ map stamped (c # calls))"
  proof (cases "Suc (length h) \<le> maxHistorySize")
    case True
    then have "?h' = h @ [stamped c]"
      by (simp add: recordUsage_eq_drop stamped_def c)
    then show ?thesis by simp
  next
    case False
    with Cons.prems have full: "length h = maxHistorySize" by simp
    then have "h \<noteq> []"
      by (auto simp: maxHistorySize_def)
    then obtain x h0 where h: "h = x # h0" by (cases h) auto
    have h': "?h' = h0 @ [stamped c]"
      using full by (simp add: recordUsage_eq_drop stamped_def c h)
    have l0: "Suc (length h0) = maxHistorySize"
      using full h by simp
    have lh': "length ?h' = maxHistorySize"
      using l0 by (simp only: h') simp
    have "drop (length ?h' + length calls - maxHistorySize) (?h' @ map stamped calls)
        = drop (length calls) (h0 @ stamped c # map stamped calls)"
      by (simp only: lh') (simp add: h')
    moreover have "drop (length h + length (c # calls) - maxHistorySize) (h @ map stamped (c # calls))
        = drop (Suc (length calls)) (x # h0 @ stamped c # map stamped calls)"
      by (simp only: full) (simp add: h)
    ultimately show ?thesis by simp
  qed
  finally show ?case .
qed

lemma recordUsage_all_empty:
  "recordUsage_all calls [] = drop (length calls - maxHistorySize) (map stamped calls)"
  using recordUsage_all_general [of "[]" calls] by simp

text \<open>
  C8. After any sequence of \<open>recordUsage\<close> calls the tracker retains at most 10,000
  records: every single call leaves at most 10,000, and a sequence of calls on a new
  tracker leaves the most recent 10,000 stamped records. After 10,001 calls exactly 10,000
  records remain, and they are all but the earliest one.
\<close>

theorem recordUsage_cap_fifo:
  "length (recordUsage now r h) \<le> 10000
   \<and> length (recordUsage_all calls []) \<le> 10000
   \<and> recordUsage_all calls [] = drop (length calls - 10000) (map stamped calls)
   \<and> (length calls = 10001 \<longrightarrow>
        length (recordUsage_all calls []) = 10000
      \<and> recordUsage_all calls [] = tl (map stamped calls))"
proof -
  have step: "length (recordUsage now r h) \<le> 10000"
    by (simp add: length_recordUsage maxHistorySize_def)
  have eq: "recordUsage_all calls [] = drop (length calls - 10000) (map stamped calls)"
    using recordUsage_all_empty [of calls] by (simp add: maxHistorySize_def)
  have len: "length (recordUsage_all calls []) \<le> 10000"
    by (simp only: eq) simp
  have last: "recordUsage_all calls [] = tl (map stamped calls)
      \<and> length (recordUsage_all calls []) = 10000" if "length calls = 10001"
    using that by (simp only: eq) (simp add: drop_Suc)
  show ?thesis
    using step eq len last by blast
qed

theorem recordUsage_cap_fifo_witness:
  "(let calls = map (\<lambda>i. (int i, r0\<lparr>tokensUsed := int i\<rparr>)) [0..<10001] in
      length calls = 10001
    \<and> length (recordUsage_all calls []) = 10000
    \<and> recordUsage_all calls [] ! 0 = r0\<lparr>tokensUsed := 1, timestamp := Some 1\<rparr>)"
proof -
  let ?calls = "map (\<lambda>i. (int i, r0\<lparr>tokensUsed := int i\<rparr>)) [0..<10001]"
  have n: "length ?calls = 10001" by simp
  from recordUsage_cap_fifo [of _ _ _ ?calls] n
  have "length (recordUsage_all ?calls []) = 10000
      \<and> recordUsage_all ?calls [] = tl (map stamped ?calls)"
    by blast
  moreover have "tl (map stamped ?calls) ! 0 = r0\<lparr>tokensUsed := 1, timestamp := Some 1\<rparr>"
    by (simp add: nth_tl stamped_def del: upt_Suc)
  ultimately show ?thesis
    by (simp only: Let_def n) simp
qed

text \<open>
  C10 (as amended). The record stored by \<open>recordUsage\<close> is the input record with its
  timestamp replaced by the clock reading of the call, whatever timestamp the caller
  supplied. Every retained record therefore has a timestamp; the retained timestamps are
  non-decreasing in insertion order when the clock readings of successive calls are; and
  the window filter of \<open>getUsageStats\<close> selects exactly the retained records stamped at
  or after the cutoff.
\<close>

theorem recordUsage_stamps_insertion_time:
  "last (recordUsage now r h) = r\<lparr>timestamp := Some now\<rparr>
   \<and> recordUsage now (r\<lparr>timestamp := supplied\<rparr>) h = recordUsage now r h
   \<and> (\<forall>x \<in> set (recordUsage_all calls []). timestamp x \<noteq> None)
   \<and> (sorted (map fst calls) \<longrightarrow>
        sorted (map (\<lambda>x. the (timestamp x)) (recordUsage_all calls [])))
   \<and> relevantRecords cutoffDate (recordUsage_all calls []) =
        filter (\<lambda>x. cutoffDate \<le> the (timestamp x)) (recordUsage_all calls [])"
proof -
  have a: "last (recordUsage now r h) = r\<lparr>timestamp := Some now\<rparr>"
    by (simp add: recordUsage_eq_drop maxHistorySize_def)
  have b: "recordUsage now (r\<lparr>timestamp := supplied\<rparr>) h = recordUsage now r h"
    by (simp add: recordUsage_def)
  have ts: "map (\<lambda>x. the (timestamp x)) (recordUsage_all calls []) =
      drop (length calls - maxHistorySize) (map fst calls)"
    by (simp add: recordUsage_all_empty drop_map stamped_def o_def)
  have c: "\<forall>x \<in> set (recordUsage_all calls []). timestamp x \<noteq> None"
    by (auto simp: recordUsage_all_empty stamped_def dest!: in_set_dropD)
  have d: "sorted (map (\<lambda>x. the (timestamp x)) (recordUsage_all calls []))"
    if "sorted (map fst calls)"
    using that by (simp only: ts sorted_wrt_drop)
  have e: "relevantRecords cutoffDate (recordUsage_all calls []) =
        filter (\<lambda>x. cutoffDate \<le> the (timestamp x)) (recordUsage_all calls [])"
    unfolding relevantRecords_def
    by (rule filter_cong [OF refl]) (use c in \<open>auto split: option.splits\<close>)
  show ?thesis
    using a b c d e by blast
qed

theorem recordUsage_stamps_insertion_time_witness:
  "(let calls = [(100, r0\<lparr>timestamp := Some 999\<rparr>), (100, r0), (250, r0\<lparr>timestamp := Some 7\<rparr>)] in
      sorted (map fst calls)
    \<and> map timestamp (recordUsage_all calls []) = [Some 100, Some 100, Some 250]
    \<and> sorted (map (\<lambda>x. the (timestamp x)) (recordUsage_all calls []))
    \<and> length (relevantRecords 200 (recordUsage_all calls [])) = 1)"
  using recordUsage_stamps_insertion_time
    [where calls = "[(100, r0\<lparr>timestamp := Some 999\<rparr>), (100, r0), (250, r0\<lparr>timestamp := Some 7\<rparr>)]"
       and cutoffDate = 200]
  by (simp add: recordUsage_def maxHistorySize_def Let_def)

text \<open>
  C10 as stated fails: the timestamp is the wall clock's reading, and when the clock is
  set back between two calls the later record carries the earlier timestamp.
\<close>

theorem clock_set_back_unsorted:
  "map timestamp (recordUsage_all [(5000, r0), (3000, r0)] []) = [Some 5000, Some 3000]
   \<and> \<not> sorted (map (\<lambda>x. the (timestamp x)) (recordUsage_all [(5000, r0), (3000, r0)] []))"
  by (simp add: recordUsage_def maxHistorySize_def Let_def)

section \<open>Properties of the rate limiter\<close>









section \<open>Properties of the provider clients\<close>










section \<open>Properties of the prompt templates\<close>

subsection \<open>Texts of several lines\<close>

lemma strip_prefix_append_sep:
  "c \<notin> set p \<Longrightarrow> strip_prefix p (s @ c # rest) = map_option (\<lambda>r. r @ c # rest) (strip_prefix p s)"
proof (induction p s rule: strip_prefix.induct)
  case (1 s)
  then show ?case by simp
next
  case (2 p ps)
  then show ?case by auto
next
  case (3 p ps c cs)
  then show ?case by simp
qed

lemma takeWhile_sep: "\<not> P c \<Longrightarrow> takeWhile P (xs @ c # ys) = takeWhile P xs"
  by (induction xs) auto

lemma dropWhile_sep: "\<not> P c \<Longrightarrow> dropWhile P (xs @ c # ys) = dropWhile P xs @ c # ys"
  by (induction xs) auto

lemma token_at_sep:
  assumes "\<not> word_char c" "c \<noteq> CHR ''{''" "c \<noteq> CHR ''}''"
  shows "token_at (s @ c # rest) = token_at s"
proof -
  have a: "c \<notin> set ''{{''" and b: "c \<notin> set ''}}''"
    using assms by auto
  show ?thesis
    unfolding token_at_def strip_prefix_append_sep [OF a]
    by (cases "strip_prefix ''{{'' s")
      (simp_all add: takeWhile_sep dropWhile_sep assms strip_prefix_append_sep [OF b] Let_def
        split: option.splits)
qed

lemma referenced_sep:
  assumes "\<not> word_char c" "c \<noteq> CHR ''{''" "c \<noteq> CHR ''}''"
  shows "referenced (l @ c # rest) = referenced l @ referenced rest"
proof (induction l)
  case Nil
  have "token_at (c # rest) = None"
    using assms by (simp add: token_at_def)
  then show ?case by simp
next
  case (Cons a l)
  have "token_at (a # l @ c # rest) = token_at (a # l)"
    using token_at_sep [OF assms, of "a # l" rest] by simp
  then show ?case
    using Cons.IH by (simp split: option.splits)
qed

lemma referenced_lines: "referenced (lines_text ls) = concat (map referenced ls)"
proof (induction ls rule: lines_text.induct)
  case 1
  then show ?case by simp
next
  case (2 l)
  then show ?case by simp
next
  case (3 l l' ls)
  have "referenced (l @ CHR 0x0A # lines_text (l' # ls)) = referenced l @ referenced (lines_text (l' # ls))"
    by (rule referenced_sep) (simp_all add: word_char_def)
  then show ?case using 3 by simp
qed

lemma find_sub_None_Cons:
  "find_sub p (a # s) = None \<longleftrightarrow> strip_prefix p (a # s) = None \<and> find_sub p s = None"
  by (auto split: option.splits)

lemma replace_blocks_none:
  "find_sub opener s = None \<Longrightarrow> replace_blocks opener closer f s = s"
proof (induction s)
  case Nil
  then show ?case by simp
next
  case (Cons a s)
  then have "strip_prefix opener (a # s) = None" "find_sub opener s = None"
    by (simp_all only: find_sub_None_Cons)
  then show ?case
    using Cons.IH by (simp add: match_block_def)
qed

lemma replace_blocks_skip_line:
  assumes "find_sub opener l = None" "c \<notin> set opener"
  shows "replace_blocks opener closer f (l @ c # rest) = l @ c # replace_blocks opener closer f rest"
  using assms(1)
proof (induction l)
  case Nil
  then have "opener \<noteq> []" by (auto split: if_splits)
  then obtain p ps where "opener = p # ps" by (cases opener) auto
  with assms(2) have "strip_prefix opener (c # rest) = None" by auto
  then show ?case by (simp add: match_block_def)
next
  case (Cons a l)
  then have sp: "strip_prefix opener (a # l) = None" and fs: "find_sub opener l = None"
    by (simp_all only: find_sub_None_Cons)
  have "strip_prefix opener ((a # l) @ c # rest) = None"
    by (simp only: strip_prefix_append_sep [OF assms(2)] sp) simp
  then have "match_block opener closer (a # l @ c # rest) = None"
    by (simp add: match_block_def)
  then show ?case
    using Cons.IH [OF fs] by simp
qed

lemma replace_blocks_lines_none:
  assumes "\<forall>l \<in> set ls. find_sub opener l = None" "CHR 0x0A \<notin> set opener"
  shows "replace_blocks opener closer f (lines_text ls) = lines_text ls"
  using assms(1)
proof (induction ls rule: lines_text.induct)
  case 1
  then show ?case by simp
next
  case (2 l)
  then show ?case by (simp add: replace_blocks_none)
next
  case (3 l l' ls)
  then show ?case
    by (simp add: replace_blocks_skip_line [OF _ assms(2)])
qed

lemma lines_text_append:
  "xs \<noteq> [] \<Longrightarrow> ys \<noteq> [] \<Longrightarrow> lines_text (xs @ ys) = lines_text xs @ CHR 0x0A # lines_text ys"
proof (induction xs rule: lines_text.induct)
  case 1
  then show ?case by simp
next
  case (2 l)
  then show ?case by (cases ys) simp_all
next
  case (3 l l' ls)
  then show ?case by simp
qed


subsection \<open>Blocks\<close>

lemma strip_prefix_self: "strip_prefix p (p @ s) = Some s"
  by (induction p) auto

lemma strip_prefix_None_append:
  "strip_prefix p s = None \<Longrightarrow> length p \<le> length s \<Longrightarrow> strip_prefix p (s @ t) = None"
  by (induction p s rule: strip_prefix.induct) (auto split: if_splits)

lemma find_sub_first:
  assumes "find_sub p (x @ p) = Some (x, [])"
  shows "find_sub p (x @ p @ t) = Some (x, t)"
  using assms
proof (induction x)
  case Nil
  show ?case
  proof (cases "p @ t")
    case Nil
    then show ?thesis by simp
  next
    case (Cons c cs)
    have "strip_prefix p (c # cs) = Some t"
      using strip_prefix_self [of p t] by (simp only: Cons)
    then show ?thesis by (simp add: Cons)
  qed
next
  case (Cons a x)
  have none: "strip_prefix p (a # x @ p) = None"
    using Cons.prems by (auto split: option.splits)
  then have "strip_prefix p ((a # x @ p) @ t) = None"
    by (rule strip_prefix_None_append) simp
  moreover have "find_sub p (x @ p) = Some (x, [])"
    using Cons.prems none by (auto split: option.splits)
  ultimately show ?case
    using Cons.IH by simp
qed


lemma takeWhile_word: "\<forall>c \<in> set n. word_char c \<Longrightarrow> \<not> word_char d \<Longrightarrow> takeWhile word_char (n @ d # s) = n"
  by (induction n) auto

lemma dropWhile_word: "\<forall>c \<in> set n. word_char c \<Longrightarrow> \<not> word_char d \<Longrightarrow> dropWhile word_char (n @ d # s) = d # s"
  by (induction n) auto

lemma match_block_segment:
  assumes "varName \<noteq> []" "\<forall>c \<in> set varName. word_char c"
    and "find_sub closer (body @ closer) = Some (body, [])"
  shows "match_block opener closer (opener @ varName @ ''}}'' @ body @ closer @ rest)
       = Some (varName, body, rest)"
proof -
  have "\<not> word_char (CHR ''}'')" by (simp add: word_char_def)
  then show ?thesis
    using assms
    by (simp add: match_block_def strip_prefix_self takeWhile_word dropWhile_word find_sub_first)
qed

lemma replace_blocks_segment:
  assumes "varName \<noteq> []" "\<forall>c \<in> set varName. word_char c"
    and "find_sub closer (body @ closer) = Some (body, [])"
  shows "replace_blocks opener closer f (opener @ varName @ ''}}'' @ body @ closer @ rest)
       = f varName body @ replace_blocks opener closer f rest"
proof -
  let ?s = "opener @ varName @ ''}}'' @ body @ closer @ rest"
  have m: "match_block opener closer ?s = Some (varName, body, rest)"
    using assms by (rule match_block_segment)
  have "?s \<noteq> []" using assms(1) by simp
  then obtain c cs where s: "?s = c # cs" by (cases ?s) auto
  show ?thesis
    using m unfolding s by simp
qed


subsection \<open>Substitution and blocks\<close>









lemma replace_blocks_skip_lines:
  assumes "\<forall>l \<in> set pre. find_sub opener l = None" "CHR 0x0A \<notin> set opener" "pre \<noteq> []"
  shows "replace_blocks opener closer f (lines_text pre @ CHR 0x0A # rest)
       = lines_text pre @ CHR 0x0A # replace_blocks opener closer f rest"
  using assms(1,3)
proof (induction pre rule: lines_text.induct)
  case 1
  then show ?case by simp
next
  case (2 l)
  then show ?case
    by (simp add: replace_blocks_skip_line [OF _ assms(2)])
next
  case (3 l l' ls)
  then show ?case
    by (simp add: replace_blocks_skip_line [OF _ assms(2)])
qed

lemma loops_block_lines:
  assumes "pre \<noteq> []" "post \<noteq> []"
    and "\<forall>l \<in> set pre. find_sub ''{{#each '' l = None"
    and "\<forall>l \<in> set post. find_sub ''{{#each '' l = None"
    and "varName \<noteq> []" "\<forall>c \<in> set varName. word_char c"
    and "find_sub ''{{/each}}'' ((CHR 0x0A # body @ [CHR 0x0A]) @ ''{{/each}}'')
           = Some (CHR 0x0A # body @ [CHR 0x0A], [])"
  shows "loops vars (lines_text (pre @ [''{{#each '' @ varName @ ''}}'', body, ''{{/each}}''] @ post))
       = lines_text pre @ CHR 0x0A #
           (case map_of vars varName of
              Some (VArr array) \<Rightarrow> concat (map (render_item (CHR 0x0A # body @ [CHR 0x0A])) array)
            | _ \<Rightarrow> [])
           @ CHR 0x0A # lines_text post"
proof -
  let ?op = "''{{#each ''" and ?cl = "''{{/each}}''"
  let ?f = "\<lambda>varName template.
          case map_of vars varName of
            Some (VArr array) \<Rightarrow> concat (map (render_item template) array)
          | _ \<Rightarrow> []"
  let ?b = "CHR 0x0A # body @ [CHR 0x0A]"
  obtain p ps where post: "post = p # ps"
    using assms(2) by (cases post) auto
  have nl: "CHR 0x0A \<notin> set ?op" by simp
  have shape: "lines_text (pre @ [?op @ varName @ ''}}'', body, ?cl] @ post)
      = lines_text pre @ CHR 0x0A # (?op @ varName @ ''}}'' @ ?b @ ?cl @ CHR 0x0A # lines_text post)"
    using assms(1) by (simp add: lines_text_append post)
  have tail: "replace_blocks ?op ?cl ?f (CHR 0x0A # lines_text post) = CHR 0x0A # lines_text post"
  proof -
    have "replace_blocks ?op ?cl ?f (lines_text ([] # post)) = lines_text ([] # post)"
      by (rule replace_blocks_lines_none) (use assms(4) in simp_all)
    then show ?thesis by (simp add: post)
  qed
  have "loops vars (lines_text (pre @ [?op @ varName @ ''}}'', body, ?cl] @ post))
      = lines_text pre @ CHR 0x0A #
          replace_blocks ?op ?cl ?f (?op @ varName @ ''}}'' @ ?b @ ?cl @ CHR 0x0A # lines_text post)"
    unfolding loops_def shape
    by (rule replace_blocks_skip_lines [OF assms(3) nl assms(1)])
  also have "replace_blocks ?op ?cl ?f (?op @ varName @ ''}}'' @ ?b @ ?cl @ CHR 0x0A # lines_text post)
      = ?f varName ?b @ replace_blocks ?op ?cl ?f (CHR 0x0A # lines_text post)"
    by (rule replace_blocks_segment [OF assms(5,6,7)])
  finally show ?thesis
    by (simp only: tail)
qed

subsection \<open>The names the four templates reference\<close>

lemma DEEP_DIVE_split:
  "DEEP_DIVE_lines = take 14 DEEP_DIVE_lines
     @ [''{{#each '' @ ''recentVideos'' @ ''}}'', DEEP_DIVE_lines ! 15, ''{{/each}}'']
     @ drop 17 DEEP_DIVE_lines"
  by (simp add: DEEP_DIVE_lines_def)

lemma DEEP_DIVE_outside_loop:
  "loops [] DEEP_DIVE_text
     = lines_text (take 14 DEEP_DIVE_lines @ [[]] @ drop 17 DEEP_DIVE_lines)"
proof -
  have "loops [] (lines_text (take 14 DEEP_DIVE_lines
     @ [''{{#each '' @ ''recentVideos'' @ ''}}'', DEEP_DIVE_lines ! 15, ''{{/each}}'']
     @ drop 17 DEEP_DIVE_lines))
    = lines_text (take 14 DEEP_DIVE_lines) @ CHR 0x0A #
           (case map_of [] ''recentVideos'' of
              Some (VArr array) \<Rightarrow>
                concat (map (render_item (CHR 0x0A # DEEP_DIVE_lines ! 15 @ [CHR 0x0A])) array)
            | _ \<Rightarrow> [])
           @ CHR 0x0A # lines_text (drop 17 DEEP_DIVE_lines)"
    by (rule loops_block_lines) (simp_all add: DEEP_DIVE_lines_def word_char_def)
  then show ?thesis
    unfolding DEEP_DIVE_text_def DEEP_DIVE_split [symmetric]
    by (simp add: lines_text_append DEEP_DIVE_lines_def)
qed

lemma DEEP_DIVE_referenced_outside_loop:
  "referenced (loops [] DEEP_DIVE_text) = [''channelTitle'', ''channelDescription'',
     ''subscriberCount'', ''videoCount'', ''viewCount'', ''contentType'', ''topics'',
     ''publishedAt'']"
  unfolding DEEP_DIVE_outside_loop referenced_lines
  by (simp add: DEEP_DIVE_lines_def token_at_def word_char_def)

lemma DEEP_DIVE_referenced:
  "referenced DEEP_DIVE_text = [''channelTitle'', ''channelDescription'',
     ''subscriberCount'', ''videoCount'', ''viewCount'', ''contentType'', ''topics'',
     ''publishedAt'', ''title'', ''views'', ''likes'', ''comments'', ''publishedAt'']"
  unfolding DEEP_DIVE_text_def referenced_lines
  by (simp add: DEEP_DIVE_lines_def token_at_def word_char_def)


lemma GROWTH_STRATEGY_split:
  "GROWTH_STRATEGY_lines = take 10 GROWTH_STRATEGY_lines
     @ [''{{#each '' @ ''recentVideos'' @ ''}}'', GROWTH_STRATEGY_lines ! 11, ''{{/each}}'']
     @ drop 13 GROWTH_STRATEGY_lines"
  by (simp add: GROWTH_STRATEGY_lines_def)

lemma GROWTH_STRATEGY_outside_loop:
  "loops [] GROWTH_STRATEGY_text
     = lines_text (take 10 GROWTH_STRATEGY_lines @ [[]] @ drop 13 GROWTH_STRATEGY_lines)"
proof -
  have "loops [] (lines_text (take 10 GROWTH_STRATEGY_lines
     @ [''{{#each '' @ ''recentVideos'' @ ''}}'', GROWTH_STRATEGY_lines ! 11, ''{{/each}}'']
     @ drop 13 GROWTH_STRATEGY_lines))
    = lines_text (take 10 GROWTH_STRATEGY_lines) @ CHR 0x0A #
           (case map_of [] ''recentVideos'' of
              Some (VArr array) \<Rightarrow>
                concat (map (render_item (CHR 0x0A # GROWTH_STRATEGY_lines ! 11 @ [CHR 0x0A])) array)
            | _ \<Rightarrow> [])
           @ CHR 0x0A # lines_text (drop 13 GROWTH_STRATEGY_lines)"
    by (rule loops_block_lines) (simp_all add: GROWTH_STRATEGY_lines_def word_char_def)
  then show ?thesis
    unfolding GROWTH_STRATEGY_text_def GROWTH_STRATEGY_split [symmetric]
    by (simp add: lines_text_append GROWTH_STRATEGY_lines_def)
qed

lemma GROWTH_STRATEGY_referenced_outside_loop:
  "referenced (loops [] GROWTH_STRATEGY_text) = [''channelTitle'', ''subscriberCount'',
     ''contentType'', ''topics'']"
  unfolding GROWTH_STRATEGY_outside_loop referenced_lines
  by (simp add: GROWTH_STRATEGY_lines_def token_at_def word_char_def)

lemma GROWTH_STRATEGY_referenced:
  "referenced GROWTH_STRATEGY_text = [''channelTitle'', ''subscriberCount'',
     ''contentType'', ''topics'', ''title'', ''views'', ''likes'', ''publishedAt'']"
  unfolding GROWTH_STRATEGY_text_def referenced_lines
  by (simp add: GROWTH_STRATEGY_lines_def token_at_def word_char_def)

lemma QUICK_SCAN_referenced:
  "referenced QUICK_SCAN_text = [''channelTitle'', ''channelDescription'',
     ''subscriberCount'', ''videoCount'', ''viewCount'', ''contentType'', ''topics'']"
  unfolding QUICK_SCAN_text_def referenced_lines
  by (simp add: QUICK_SCAN_lines_def token_at_def word_char_def)

lemma COMPETITOR_COMPARE_referenced:
  "referenced COMPETITOR_COMPARE_text = [''channelTitle'', ''subscriberCount'',
     ''contentType'', ''topics'']"
  unfolding COMPETITOR_COMPARE_text_def referenced_lines
  by (simp add: COMPETITOR_COMPARE_lines_def token_at_def word_char_def)

text \<open>
  C6 (as amended). \<open>getPromptTemplate\<close> returns the four templates. For \<open>QUICK_SCAN\<close>
  and \<open>COMPETITOR_COMPARE\<close> every name referenced by the text is declared. For
  \<open>DEEP_DIVE\<close> and \<open>GROWTH_STRATEGY\<close> every name referenced outside the body of the
  \<open>{{#each recentVideos}}\<close> loop is declared (the text with its loops removed is the loop
  pass run on no variables); the names referenced by the whole text and not declared are
  the fields of the loop's elements: \<open>title\<close>, \<open>views\<close>, \<open>likes\<close>, \<open>comments\<close> for
  \<open>DEEP_DIVE\<close> and \<open>title\<close>, \<open>views\<close>, \<open>likes\<close>, \<open>publishedAt\<close> for
  \<open>GROWTH_STRATEGY\<close>.
\<close>

theorem declared_variables_cover:
  "getPromptTemplate ''QUICK_SCAN'' = Inr QUICK_SCAN
   \<and> getPromptTemplate ''DEEP_DIVE'' = Inr DEEP_DIVE
   \<and> getPromptTemplate ''COMPETITOR_COMPARE'' = Inr COMPETITOR_COMPARE
   \<and> getPromptTemplate ''GROWTH_STRATEGY'' = Inr GROWTH_STRATEGY
   \<and> set (referenced (t_template QUICK_SCAN)) \<subseteq> set (t_variables QUICK_SCAN)
   \<and> set (referenced (t_template COMPETITOR_COMPARE)) \<subseteq> set (t_variables COMPETITOR_COMPARE)
   \<and> set (referenced (loops [] (t_template DEEP_DIVE))) \<subseteq> set (t_variables DEEP_DIVE)
   \<and> set (referenced (loops [] (t_template GROWTH_STRATEGY))) \<subseteq> set (t_variables GROWTH_STRATEGY)
   \<and> filter (\<lambda>n. n \<notin> set (t_variables DEEP_DIVE)) (referenced (t_template DEEP_DIVE))
       = [''title'', ''views'', ''likes'', ''comments'']
   \<and> filter (\<lambda>n. n \<notin> set (t_variables GROWTH_STRATEGY)) (referenced (t_template GROWTH_STRATEGY))
       = [''title'', ''views'', ''likes'', ''publishedAt'']"
proof -
  have g: "getPromptTemplate ''QUICK_SCAN'' = Inr QUICK_SCAN"
    "getPromptTemplate ''DEEP_DIVE'' = Inr DEEP_DIVE"
    "getPromptTemplate ''COMPETITOR_COMPARE'' = Inr COMPETITOR_COMPARE"
    "getPromptTemplate ''GROWTH_STRATEGY'' = Inr GROWTH_STRATEGY"
    by (simp_all add: getPromptTemplate_def)
  have q: "set (referenced (t_template QUICK_SCAN)) \<subseteq> set (t_variables QUICK_SCAN)"
    by (simp add: QUICK_SCAN_def QUICK_SCAN_referenced)
  have c: "set (referenced (t_template COMPETITOR_COMPARE)) \<subseteq> set (t_variables COMPETITOR_COMPARE)"
    by (simp add: COMPETITOR_COMPARE_def COMPETITOR_COMPARE_referenced)
  have d: "set (referenced (loops [] (t_template DEEP_DIVE))) \<subseteq> set (t_variables DEEP_DIVE)"
    by (simp add: DEEP_DIVE_def DEEP_DIVE_referenced_outside_loop)
  have s: "set (referenced (loops [] (t_template GROWTH_STRATEGY))) \<subseteq> set (t_variables GROWTH_STRATEGY)"
    by (simp add: GROWTH_STRATEGY_def GROWTH_STRATEGY_referenced_outside_loop)
  have d': "filter (\<lambda>n. n \<notin> set (t_variables DEEP_DIVE)) (referenced (t_template DEEP_DIVE))
       = [''title'', ''views'', ''likes'', ''comments'']"
    by (simp add: DEEP_DIVE_def DEEP_DIVE_referenced)
  have s': "filter (\<lambda>n. n \<notin> set (t_variables GROWTH_STRATEGY)) (referenced (t_template GROWTH_STRATEGY))
       = [''title'', ''views'', ''likes'', ''publishedAt'']"
    by (simp add: GROWTH_STRATEGY_def GROWTH_STRATEGY_referenced)
  show ?thesis
    using g q c d s d' s' by (intro conjI)
qed

text \<open>
  C6 as stated fails: the \<open>DEEP_DIVE\<close> text references \<open>title\<close>, inside its loop, and
  the declared list does not hold it.
\<close>

theorem loop_field_not_declared:
  "''title'' \<in> set (referenced (t_template DEEP_DIVE))
   \<and> ''title'' \<notin> set (t_variables DEEP_DIVE)"
  by (simp add: DEEP_DIVE_def DEEP_DIVE_referenced)

subsection \<open>Rendering\<close>




section \<open>Properties of the Analyzer\<close>

lemma analyzeChannel_returned:
  assumes "(case opt_provider options of Some p \<Rightarrow> Inr p
            | None \<Rightarrow> selectOptimalProvider a request) = Inr p"
    and "(case opt_model options of None \<Rightarrow> getDefaultModel p
          | Some m \<Rightarrow> if m \<noteq> [] then Inr m else getDefaultModel p) = Inr m"
    and "estimateCost request p m = Inr estimate"
    and "invoke_provider w a p request m = Inr result"
  shows "analyzeChannel w a request options =
     Inr (result,
          if resp_success result
          then a\<lparr>costTracker := recordUsage (w_clock w) (success_usage p m request result)
                                  (costTracker a)\<rparr>
          else a)"
  by (subst analyzeChannel.simps) (simp only: assms sum.case)

lemma estimateCost_default_openai:
  "\<exists>estimate. estimateCost request openai ''gpt-4-turbo'' = Inr estimate"
  by (simp add: estimateCost_def OpenAI_MODEL_CONFIGS_def Let_def)

lemma OpenAI_http_error:
  assumes "getPromptTemplate (req_analysisType request) = Inr t"
    and "OpenAI_MODEL_CONFIGS m = Some config"
    and "w_openai w (replaceVariables (t_template t) (request_variables w request)) m config
           = Inl message"
  shows "OpenAI_analyzeChannel w request m = client_failure w ''OPENAI_ERROR'' openai message"
  using assms by (simp add: OpenAI_analyzeChannel_def Let_def)

text \<open>
  What the \<open>catch\<close> block does when the \<open>try\<close> block throws, which it does only when
  the selected service object does not exist: without a fallback one failed record is
  written and a failure result returned; with a different fallback provider the call is
  repeated once for that provider, with its default model and no further fallback.
\<close>

lemma thrown_error_recorded_once:
  assumes "opt_provider options = Some openai" "opt_model options = None"
    and "opt_fallbackProvider options = None" "\<not> openaiService a"
  shows "analyzeChannel w a request options =
     Inr (analysis_failed w openai ''OpenAI service not initialized. Check API key.'',
          a\<lparr>costTracker := recordUsage (w_clock w)
               (failed_usage openai ''gpt-4-turbo'' request
                  ''OpenAI service not initialized. Check API key.'')
               (costTracker a)\<rparr>)"
proof -
  obtain estimate where e: "estimateCost request openai ''gpt-4-turbo'' = Inr estimate"
    using estimateCost_default_openai by blast
  show ?thesis
    by (subst analyzeChannel.simps) (simp add: assms e invoke_provider_def)
qed

lemma thrown_error_falls_back_once:
  assumes "opt_provider options = Some openai" "opt_model options = None"
    and "opt_fallbackProvider options = Some claude" "\<not> openaiService a"
  shows "analyzeChannel w a request options =
     analyzeChannel w a request
       \<lparr>opt_provider = Some claude, opt_model = Some ''claude-3-sonnet'',
        opt_fallbackProvider = None\<rparr>"
proof -
  obtain estimate where e: "estimateCost request openai ''gpt-4-turbo'' = Inr estimate"
    using estimateCost_default_openai by blast
  show ?thesis
    by (subst analyzeChannel.simps) (simp add: assms e invoke_provider_def)
qed

text \<open>
  C1 (the code departs from the claim). The OpenAI client is selected, its service exists,
  no fallback is given, and the provider's HTTP call fails. The client catches the error
  and returns a failure result, so \<open>analyzeChannel\<close> returns that result from its \<open>try\<close>
  block and leaves the cost tracker as it was: no usage record is written for this failed
  invocation. The failed record of the \<open>catch\<close> block is written only for an error
  thrown in the \<open>try\<close> block, which a client never does.
\<close>

theorem client_failure_not_recorded:
  assumes "opt_provider options = Some openai" "opt_model options = None"
    and "opt_fallbackProvider options = None"
    and "openaiService a"
    and "getPromptTemplate (req_analysisType request) = Inr t"
    and "w_openai w (replaceVariables (t_template t) (request_variables w request))
           ''gpt-4-turbo'' (the (OpenAI_MODEL_CONFIGS ''gpt-4-turbo'')) = Inl message"
  shows "analyzeChannel w a request options
       = Inr (client_failure w ''OPENAI_ERROR'' openai message, a)"
proof -
  obtain estimate where e: "estimateCost request openai ''gpt-4-turbo'' = Inr estimate"
    using estimateCost_default_openai by blast
  have c: "OpenAI_MODEL_CONFIGS ''gpt-4-turbo'' = Some (the (OpenAI_MODEL_CONFIGS ''gpt-4-turbo''))"
    by (simp add: OpenAI_MODEL_CONFIGS_def)
  have r: "OpenAI_analyzeChannel w request ''gpt-4-turbo''
      = client_failure w ''OPENAI_ERROR'' openai message"
    using assms(5) c assms(6) by (rule OpenAI_http_error)
  have i: "invoke_provider w a openai request ''gpt-4-turbo''
      = Inr (client_failure w ''OPENAI_ERROR'' openai message)"
    using assms(4) by (simp add: invoke_provider_def r)
  have "analyzeChannel w a request options =
     Inr (client_failure w ''OPENAI_ERROR'' openai message,
          if resp_success (client_failure w ''OPENAI_ERROR'' openai message)
          then a\<lparr>costTracker := recordUsage (w_clock w)
                 (success_usage openai ''gpt-4-turbo'' request
                    (client_failure w ''OPENAI_ERROR'' openai message))
                 (costTracker a)\<rparr>
          else a)"
    by (rule analyzeChannel_returned [OF _ _ e i]) (simp_all add: assms)
  then show ?thesis
    by (simp add: client_failure_def)
qed

theorem client_failure_not_recorded_witness:
  "(let options = \<lparr>opt_provider = Some openai, opt_model = None, opt_fallbackProvider = None\<rparr> in
      openaiService analyzer0
    \<and> getPromptTemplate (req_analysisType request0) = Inr QUICK_SCAN
    \<and> (case analyzeChannel world0 analyzer0 request0 options of
          Inl e \<Rightarrow> False
        | Inr (result, a') \<Rightarrow>
            \<not> resp_success result
          \<and> map_option err_code (resp_error result) = Some ''OPENAI_ERROR''
          \<and> costTracker a' = []))"
  using client_failure_not_recorded [where w = world0 and a = analyzer0 and request = request0
      and options = "\<lparr>opt_provider = Some openai, opt_model = None, opt_fallbackProvider = None\<rparr>"
      and t = QUICK_SCAN and message = "''OpenAI API Error: Rate limit reached''"]
  by (simp add: analyzer0_def request0_def world0_def getPromptTemplate_def client_failure_def)


text \<open>
  C3 (the code departs from the claim). The OpenAI client is selected and its HTTP call
  fails, and the caller gave Claude, whose service exists, as the fallback provider. The
  failure is a returned result, not a thrown error, so the \<open>catch\<close> block with the
  fallback is not entered: \<open>analyzeChannel\<close> returns the OpenAI failure, whatever the
  Claude service would answer.
\<close>

theorem client_failure_skips_fallback:
  assumes "opt_provider options = Some openai" "opt_model options = None"
    and "opt_fallbackProvider options = Some claude"
    and "openaiService a" "claudeService a"
    and "getPromptTemplate (req_analysisType request) = Inr t"
    and "w_openai w (replaceVariables (t_template t) (request_variables w request))
           ''gpt-4-turbo'' (the (OpenAI_MODEL_CONFIGS ''gpt-4-turbo'')) = Inl message"
  shows "analyzeChannel w a request options
       = Inr (client_failure w ''OPENAI_ERROR'' openai message, a)"
proof -
  obtain estimate where e: "estimateCost request openai ''gpt-4-turbo'' = Inr estimate"
    using estimateCost_default_openai by blast
  have c: "OpenAI_MODEL_CONFIGS ''gpt-4-turbo'' = Some (the (OpenAI_MODEL_CONFIGS ''gpt-4-turbo''))"
    by (simp add: OpenAI_MODEL_CONFIGS_def)
  have r: "OpenAI_analyzeChannel w request ''gpt-4-turbo''
      = client_failure w ''OPENAI_ERROR'' openai message"
    using assms(6) c assms(7) by (rule OpenAI_http_error)
  have i: "invoke_provider w a openai request ''gpt-4-turbo''
      = Inr (client_failure w ''OPENAI_ERROR'' openai message)"
    using assms(4) by (simp add: invoke_provider_def r)
  have "analyzeChannel w a request options =
     Inr (client_failure w ''OPENAI_ERROR'' openai message,
          if resp_success (client_failure w ''OPENAI_ERROR'' openai message)
          then a\<lparr>costTracker := recordUsage (w_clock w)
                 (success_usage openai ''gpt-4-turbo'' request
                    (client_failure w ''OPENAI_ERROR'' openai message))
                 (costTracker a)\<rparr>
          else a)"
    by (rule analyzeChannel_returned [OF _ _ e i]) (simp_all add: assms)
  then show ?thesis
    by (simp add: client_failure_def)
qed

lemma Claude_world0_succeeds:
  "resp_success (Claude_analyzeChannel world0 request0 ''claude-3-sonnet'')"
  by (simp add: Claude_analyzeChannel_def world0_def request0_def getPromptTemplate_def
      Claude_MODEL_CONFIGS_def Claude_parseAnalysisResponse_def jsonMatch_def
      build_response_def payload0_def read_prop_def Let_def)

theorem client_failure_skips_fallback_witness:
  "(let options = \<lparr>opt_provider = Some openai, opt_model = None,
                     opt_fallbackProvider = Some claude\<rparr> in
      openaiService analyzer0 \<and> claudeService analyzer0
    \<and> resp_success (Claude_analyzeChannel world0 request0 ''claude-3-sonnet'')
    \<and> (case analyzeChannel world0 analyzer0 request0 options of
          Inl e \<Rightarrow> False
        | Inr (result, a') \<Rightarrow>
            \<not> resp_success result
          \<and> map_option err_code (resp_error result) = Some ''OPENAI_ERROR''
          \<and> map_option err_provider (resp_error result) = Some (Some openai)
          \<and> a' = analyzer0))"
  using client_failure_skips_fallback [where w = world0 and a = analyzer0 and request = request0
      and options = "\<lparr>opt_provider = Some openai, opt_model = None,
                       opt_fallbackProvider = Some claude\<rparr>"
      and t = QUICK_SCAN and message = "''OpenAI API Error: Rate limit reached''"]
    Claude_world0_succeeds
  by (simp add: analyzer0_def request0_def world0_def getPromptTemplate_def client_failure_def)



end
